theory Spec2Isabelle
  imports Main
begin

section \<open>Data model of \<open>dkg/assets.py\<close>\<close>

text \<open>
  The module \<open>dkg/assets.py\<close> orchestrates a ledger (\<open>BlockchainRequest\<close>), a node
  network (\<open>NodeRequest\<close>) and pure library helpers (canonicalisation, Merkle hashing,
  locator codec). The values that cross these interfaces are modelled with the types of
  the source's annotations: Python's unbounded \<open>int\<close> is \<open>int\<close>, \<open>str\<close> is \<open>string\<close>.
\<close>

type_synonym HexStr = string
type_synonym Address = string
type_synonym UAL = string
type_synonym NQuads = "string list"
type_synonym bytes = "nat list"

text \<open>
  \<open>JSONLD\<close>: the JSON values a caller may pass as content. Numbers are integers only
  (floating-point numbers are not modelled).
\<close>

datatype JSONLD =
    JNull
  | JBool bool
  | JInt int
  | JStr string
  | JList "JSONLD list"
  | JObj "(string \<times> JSONLD) list"

text \<open>Python's truth value of a JSON value, as tested by \<open>if content.get(k, None):\<close>.\<close>

fun truthy :: "JSONLD \<Rightarrow> bool" where
  "truthy JNull = False"
| "truthy (JBool b) = b"
| "truthy (JInt n) = (n \<noteq> 0)"
| "truthy (JStr s) = (s \<noteq> [])"
| "truthy (JList xs) = (xs \<noteq> [])"
| "truthy (JObj kvs) = (kvs \<noteq> [])"

datatype content_type = JSON_LD | N_Quads

text \<open>The \<open>content\<close> argument: a dict with the optional keys \<open>'public'\<close> and \<open>'private'\<close>.\<close>

record content =
  public_part :: "JSONLD option"
  private_part :: "JSONLD option"

text \<open>\<open>content.get(k, None)\<close> followed by the truth test.\<close>

definition has_part :: "JSONLD option \<Rightarrow> bool" where
  "has_part p = (case p of None \<Rightarrow> False | Some v \<Rightarrow> truthy v)"

text \<open>
  Status of a polled operation and the payload of its result.
  Modelled from the spec: \<open>OperationStatus\<close> and the shape \<open>{status, data?}\<close> of the result
  of \<open>getOperationResult\<close> (\<open>dkg/dataclasses.py\<close> and \<open>dkg/utils/node_request.py\<close> are
  not among the sources).
\<close>

datatype OperationStatus = Pending | Completed | Failed

record OperationData =
  data_assertion :: NQuads

record NodeResponseDict =
  status :: OperationStatus
  data :: "OperationData option"

record BidSuggestionResponse =
  bidSuggestion :: string

record OperationIdResponse =
  operationId :: string

text \<open>
  Exceptions. \<open>ContractLogicError\<close> (web3), \<open>OperationNotFinished\<close> and \<open>InvalidAsset\<close>
  (\<open>dkg.exceptions\<close>) are the classes the source names; \<open>OperationFailed\<close> is the
  terminal failure of \<open>validate_operation_status\<close>; the Python built-in errors are those
  the source's own expressions can raise; \<open>OtherError\<close> stands for any other exception a
  collaborator raises.
\<close>

datatype exn =
    ContractLogicError string
  | OperationNotFinished
  | OperationFailed "OperationData option"
  | InvalidAsset HexStr HexStr
  | TypeError
  | ValueError
  | KeyError
  | IndexError
  | ZeroDivisionError
  | OtherError string

record AssertionMetadata =
  size' :: int
  triples_number :: int
  chunks_number :: int

record PublicAssertion =
  id' :: HexStr
  content' :: NQuads
  metadata :: AssertionMetadata

record PrivateAssertion =
  private_id :: HexStr
  private_content :: NQuads

record Assertions =
  public' :: PublicAssertion
  private' :: "PrivateAssertion option"

text \<open>\<open>AgreementData\<close> (a named tuple of \<open>dkg.types\<close>): the fields the source reads.\<close>

record AgreementData =
  startTime :: int
  epochsNumber :: int
  epochLength :: int
  tokensInfo :: "int list"

record ParsedUAL =
  ual_blockchain :: string
  ual_contract_address :: Address
  ual_token_id :: int

datatype Receipt = Receipt string

datatype StoreTypes = TRIPLE | PENDING

text \<open>
  Modelled from the spec: the values of the enum \<open>StoreTypes\<close> (\<open>dkg/utils/node_request.py\<close>
  is not among the sources); the spec names the store types "Triple" and "Pending".
\<close>

fun StoreTypes_value :: "StoreTypes \<Rightarrow> string" where
  "StoreTypes_value TRIPLE = ''Triple''"
| "StoreTypes_value PENDING = ''Pending''"

text \<open>One element of \<open>assertions_list\<close>, the payload of \<open>local_store\<close>.\<close>

record StoreEntry =
  se_blockchain :: string
  se_contract :: Address
  se_tokenId :: int
  se_assertionId :: HexStr
  se_assertion :: NQuads
  se_storeType :: string

text \<open>The dict passed to \<open>create_asset\<close>.\<close>

record CreateAssetArgs =
  ca_assertionId :: bytes
  ca_size :: int
  ca_triplesNumber :: int
  ca_chunksNumber :: int
  ca_tokenAmount :: int
  ca_epochsNumber :: int
  ca_scoreFunctionId :: int
  ca_immutable :: bool

text \<open>The keyword arguments of \<open>update_asset_state\<close>.\<close>

record UpdateAssetStateArgs =
  ua_token_id :: int
  ua_assertion_id :: HexStr
  ua_size :: int
  ua_triples_number :: int
  ua_chunks_number :: int
  ua_update_token_amount :: int

record Block =
  block_timestamp :: int

text \<open>The dict \<open>create\<close> and \<open>update\<close> return.\<close>

record AssetResult =
  r_UAL :: UAL
  r_publicAssertionId :: HexStr
  r_operationId :: string
  r_status :: OperationStatus

text \<open>The dict \<open>get\<close> returns.\<close>

record GetResult =
  g_assertionId :: HexStr
  g_assertion :: "JSONLD list"
  g_operation_id :: string
  g_status :: OperationStatus

section \<open>Effects: the trace of collaborator calls\<close>

text \<open>
  Every call to the ledger, to the node, and every \<open>sleep\<close> is an event. An event records
  the arguments of the call and its outcome (\<open>Inl\<close> the exception raised, \<open>Inr\<close> the value
  returned), so the trace of a run is its complete observable behaviour.
\<close>

datatype event =
    ChainId "exn + int"
  | GetAssetStorageAddress string "exn + Address"
  | GetContractAddress string "exn + Address"
  | IncreaseAllowance Address int "exn + unit"
  | DecreaseAllowance Address int "exn + unit"
  | CreateAsset CreateAssetArgs "exn + Receipt"
  | GetBidSuggestion string int int Address HexStr int "exn + BidSuggestionResponse"
  | LocalStore "StoreEntry list" "exn + OperationIdResponse"
  | Publish HexStr NQuads string Address int int "exn + OperationIdResponse"
  | Update HexStr NQuads string Address int int "exn + OperationIdResponse"
  | Get UAL int "exn + OperationIdResponse"
  | GetOperationResult string string "exn + NodeResponseDict"
  | GetBlock string "exn + Block"
  | GetServiceAgreementData HexStr "exn + AgreementData"
  | UpdateAssetState UpdateAssetStateArgs "exn + unit"
  | GetLatestAssertionId int "exn + bytes"
  | GetAssertionIdByIndex int int "exn + bytes"
  | Owner int "exn + Address"
  | Sleep int

text \<open>
  The collaborators. Each request \<open>req_x\<close> is the source's bound method \<open>self._x\<close>; its
  answer may depend on everything that happened before (the trace so far).
  \<open>SUPPORTED_NETWORKS\<close> and \<open>decode_logs_event\<close> belong to
  \<open>self.manager.blockchain_provider\<close>; the latter yields the \<open>tokenId\<close> argument of
  each decoded event.
\<close>

record env =
  req_chain_id :: "event list \<Rightarrow> exn + int"
  SUPPORTED_NETWORKS :: "int \<Rightarrow> string option"
  req_get_asset_storage_address :: "event list \<Rightarrow> string \<Rightarrow> exn + Address"
  req_get_contract_address :: "event list \<Rightarrow> string \<Rightarrow> exn + Address"
  req_increase_allowance :: "event list \<Rightarrow> Address \<Rightarrow> int \<Rightarrow> exn + unit"
  req_decrease_allowance :: "event list \<Rightarrow> Address \<Rightarrow> int \<Rightarrow> exn + unit"
  req_create :: "event list \<Rightarrow> CreateAssetArgs \<Rightarrow> exn + Receipt"
  decode_logs_event :: "Receipt \<Rightarrow> string \<Rightarrow> string \<Rightarrow> exn + int list"
  req_get_bid_suggestion ::
    "event list \<Rightarrow> string \<Rightarrow> int \<Rightarrow> int \<Rightarrow> Address \<Rightarrow> HexStr \<Rightarrow> int \<Rightarrow> exn + BidSuggestionResponse"
  req_local_store :: "event list \<Rightarrow> StoreEntry list \<Rightarrow> exn + OperationIdResponse"
  req_publish ::
    "event list \<Rightarrow> HexStr \<Rightarrow> NQuads \<Rightarrow> string \<Rightarrow> Address \<Rightarrow> int \<Rightarrow> int \<Rightarrow> exn + OperationIdResponse"
  req_update ::
    "event list \<Rightarrow> HexStr \<Rightarrow> NQuads \<Rightarrow> string \<Rightarrow> Address \<Rightarrow> int \<Rightarrow> int \<Rightarrow> exn + OperationIdResponse"
  req_get :: "event list \<Rightarrow> UAL \<Rightarrow> int \<Rightarrow> exn + OperationIdResponse"
  req_get_operation_result :: "event list \<Rightarrow> string \<Rightarrow> string \<Rightarrow> exn + NodeResponseDict"
  req_get_block :: "event list \<Rightarrow> string \<Rightarrow> exn + Block"
  req_get_service_agreement_data :: "event list \<Rightarrow> HexStr \<Rightarrow> exn + AgreementData"
  req_update_asset_state :: "event list \<Rightarrow> UpdateAssetStateArgs \<Rightarrow> exn + unit"
  req_get_latest_assertion_id :: "event list \<Rightarrow> int \<Rightarrow> exn + bytes"
  req_get_assertion_id_by_index :: "event list \<Rightarrow> int \<Rightarrow> int \<Rightarrow> exn + bytes"
  req_owner :: "event list \<Rightarrow> int \<Rightarrow> exn + Address"

text \<open>
  The pure helpers the module imports (\<open>dkg.utils.rdf\<close>, \<open>dkg.utils.merkle\<close>,
  \<open>dkg.utils.metadata\<close>, \<open>dkg.utils.ual\<close>, \<open>pyld\<close>, \<open>web3\<close>) and two Python built-ins.
  None of them is among the sources; they are parameters of the model.
  \<^item> \<open>merkle_root a\<close> is \<open>MerkleTree(hash_assertion_with_indexes(a), sort_pairs=True).root\<close>;
  \<^item> \<open>to_bytes s\<close> is \<open>Web3.to_bytes(hexstr=s)\<close>, a conversion of text: the bytes, or
    \<open>None\<close> where \<open>s\<close> is not a hexadecimal string (see \<open>Web3_to_bytes\<close>);
  \<^item> \<open>py_int s\<close> is \<open>int(s)\<close> on a string;
  \<^item> \<open>float_floor_div a b\<close> is \<open>math.floor(a / b)\<close> where the floating-point quotient
    need not be exact (see \<open>floor_truediv\<close>).
\<close>

record lib =
  normalize_dataset :: "JSONLD \<Rightarrow> content_type \<Rightarrow> exn + NQuads"
  merkle_root :: "NQuads \<Rightarrow> exn + HexStr"
  generate_assertion_metadata :: "NQuads \<Rightarrow> exn + AssertionMetadata"
  from_rdf :: "string \<Rightarrow> exn + JSONLD list"
  parse_ual :: "UAL \<Rightarrow> exn + ParsedUAL"
  format_ual :: "string \<Rightarrow> Address \<Rightarrow> int \<Rightarrow> UAL"
  generate_keyword :: "Address \<Rightarrow> bytes \<Rightarrow> exn + bytes"
  generate_agreement_id :: "Address \<Rightarrow> int \<Rightarrow> bytes \<Rightarrow> exn + HexStr"
  to_bytes :: "HexStr \<Rightarrow> bytes option"
  to_hex :: "bytes \<Rightarrow> HexStr"
  py_int :: "string \<Rightarrow> exn + int"
  float_floor_div :: "int \<Rightarrow> int \<Rightarrow> exn + int"

subsection \<open>Sequencing\<close>

text \<open>
  A computation reads the trace so far and yields its outcome together with the events it
  emitted itself. \<open>bnd\<close> is Python's sequencing: an exception ends the run.
\<close>

type_synonym 'a io = "event list \<Rightarrow> (exn + 'a) \<times> event list"

definition ret :: "'a \<Rightarrow> 'a io" where
  "ret x = (\<lambda>h. (Inr x, []))"

definition throw :: "exn \<Rightarrow> 'a io" where
  "throw e = (\<lambda>h. (Inl e, []))"

definition pure :: "exn + 'a \<Rightarrow> 'a io" where
  "pure r = (\<lambda>h. (r, []))"

definition bnd :: "'a io \<Rightarrow> ('a \<Rightarrow> 'b io) \<Rightarrow> 'b io" where
  "bnd m f = (\<lambda>h. case m h of
       (Inl e, es) \<Rightarrow> (Inl e, es)
     | (Inr x, es) \<Rightarrow> (case f x (h @ es) of (r, es') \<Rightarrow> (r, es @ es')))"

text \<open>\<open>try: m except Exception as e: handler e\<close>.\<close>

definition try_except :: "'a io \<Rightarrow> (exn \<Rightarrow> 'a io) \<Rightarrow> 'a io" where
  "try_except m handler = (\<lambda>h. case m h of
       (Inr x, es) \<Rightarrow> (Inr x, es)
     | (Inl e, es) \<Rightarrow> (case handler e (h @ es) of (r, es') \<Rightarrow> (r, es @ es')))"

text \<open>A collaborator call: ask, and log the call with its outcome.\<close>

definition call :: "((exn + 'a) \<Rightarrow> event) \<Rightarrow> (event list \<Rightarrow> exn + 'a) \<Rightarrow> 'a io" where
  "call ev req = (\<lambda>h. (req h, [ev (req h)]))"

definition sleep :: "int \<Rightarrow> unit io" where
  "sleep d = (\<lambda>h. (Inr (), [Sleep d]))"

section \<open>The operation coordinator\<close>

text \<open>
  Modelled from the spec: the decorator \<open>retry\<close> of \<open>dkg/utils/decorators.py\<close>, which is
  not among the sources. Section 4.4: up to \<open>max_retries\<close> attempts in total; the delay
  before attempt \<open>n\<close> (\<open>n \<ge> 1\<close>) is \<open>base_delay * backoff ^ (n - 1)\<close>; only the caught
  condition is retried, any other failure propagates at once; exhausting the attempts
  surfaces \<open>OperationNotFinished\<close>. A completed attempt returns what the wrapped function
  returned.
\<close>

fun retry :: "(exn \<Rightarrow> bool) \<Rightarrow> nat \<Rightarrow> int \<Rightarrow> int \<Rightarrow> 'a io \<Rightarrow> 'a io" where
  "retry catch 0 delay backoff f = throw OperationNotFinished"
| "retry catch (Suc n) delay backoff f =
     bnd (sleep delay) (\<lambda>_.
     try_except f (\<lambda>e. if catch e then retry catch n (delay * backoff) backoff f else throw e))"

fun is_OperationNotFinished :: "exn \<Rightarrow> bool" where
  "is_OperationNotFinished OperationNotFinished = True"
| "is_OperationNotFinished _ = False"

text \<open>
  Modelled from the spec: \<open>validate_operation_status\<close> of \<open>dkg/utils/node_request.py\<close>,
  which is not among the sources. Section 4.4: status Pending raises the retryable "not
  finished" condition, Completed returns, Failed raises the terminal \<open>OperationFailed\<close>
  carrying the reported failure detail.
\<close>

definition validate_operation_status :: "NodeResponseDict \<Rightarrow> exn + unit" where
  "validate_operation_status operation_result =
     (case status operation_result of
        Pending \<Rightarrow> Inl OperationNotFinished
      | Completed \<Rightarrow> Inr ()
      | Failed \<Rightarrow> Inl (OperationFailed (data operation_result)))"

text \<open>
  \<open>ContentAsset.get_operation_result\<close> (lines 329-338): the body, and the method as
  decorated with \<open>@retry(catch=OperationNotFinished, max_retries=5, base_delay=1, backoff=2)\<close>.
\<close>

definition get_operation_result_body :: "env \<Rightarrow> string \<Rightarrow> string \<Rightarrow> NodeResponseDict io" where
  "get_operation_result_body E operation_id operation =
     bnd (call (GetOperationResult operation_id operation)
            (\<lambda>h. req_get_operation_result E h operation_id operation)) (\<lambda>operation_result.
     bnd (pure (validate_operation_status operation_result)) (\<lambda>_.
     ret operation_result))"

definition get_operation_result :: "env \<Rightarrow> string \<Rightarrow> string \<Rightarrow> NodeResponseDict io" where
  "get_operation_result E operation_id operation =
     retry is_OperationNotFinished 5 1 2 (get_operation_result_body E operation_id operation)"

text \<open>Python's \<open>xs[0]\<close>.\<close>

definition getitem0 :: "'a list \<Rightarrow> exn + 'a" where
  "getitem0 xs = (case xs of [] \<Rightarrow> Inl IndexError | x # _ \<Rightarrow> Inr x)"

section \<open>Content processing\<close>

definition HASH_FUNCTION_ID :: int where
  "HASH_FUNCTION_ID = 1"

definition SCORE_FUNCTION_ID :: int where
  "SCORE_FUNCTION_ID = 1"

definition PRIVATE_ASSERTION_PREDICATE :: string where
  "PRIVATE_ASSERTION_PREDICATE = ''https://ontology.origintrail.io/dkg/1.0#privateAssertionID''"

text \<open>Sequencing of pure fallible steps.\<close>

definition and_then :: "exn + 'a \<Rightarrow> ('a \<Rightarrow> exn + 'b) \<Rightarrow> exn + 'b" where
  "and_then r f = (case r of Inl e \<Rightarrow> Inl e | Inr x \<Rightarrow> f x)"

text \<open>
  \<open>ContentAsset._process_content\<close> (lines 280-318). \<open>graph\<close> is the list
  \<open>public_graph['@graph']\<close>: the public content if it is truthy (lines 287-288), then, if
  the private content is truthy, the statement that maps the reserved predicate to the
  private assertion id (lines 290-299).
\<close>

definition process_content :: "lib \<Rightarrow> content \<Rightarrow> content_type \<Rightarrow> exn + Assertions" where
  "process_content L content type' =
    (let graph = (case public_part content of
                    Some v \<Rightarrow> if truthy v then [v] else []
                  | None \<Rightarrow> [])
     in
     and_then
       (case private_part content of
          Some v \<Rightarrow>
            if truthy v then
              and_then (normalize_dataset L v type') (\<lambda>private_assertion.
              and_then (merkle_root L private_assertion) (\<lambda>private_assertion_id.
              Inr (Some \<lparr>private_id = private_assertion_id,
                         private_content = private_assertion\<rparr>)))
            else Inr None
        | None \<Rightarrow> Inr None) (\<lambda>priv.
     let graph = graph @ (case priv of
                            Some p \<Rightarrow> [JObj [(PRIVATE_ASSERTION_PREDICATE, JStr (private_id p))]]
                          | None \<Rightarrow> []);
         public_graph = JObj [(''@graph'', JList graph)]
     in
     and_then (normalize_dataset L public_graph type') (\<lambda>public_assertion.
     and_then (merkle_root L public_assertion) (\<lambda>public_assertion_id.
     and_then (generate_assertion_metadata L public_assertion) (\<lambda>public_assertion_metadata.
     Inr \<lparr>public' = \<lparr>id' = public_assertion_id,
                       content' = public_assertion,
                       metadata = public_assertion_metadata\<rparr>,
          private' = priv\<rparr>)))))"

section \<open>The asset lifecycle\<close>

text \<open>\<open>SUPPORTED_NETWORKS[chain_id]\<close>: a missing key raises \<open>KeyError\<close>.\<close>

definition lookup_network :: "env \<Rightarrow> int \<Rightarrow> exn + string" where
  "lookup_network E cid = (case SUPPORTED_NETWORKS E cid of None \<Rightarrow> Inl KeyError | Some n \<Rightarrow> Inr n)"

text \<open>
  The list \<open>assertions_list\<close> built by \<open>create\<close> (lines 92-109) and by \<open>update\<close>
  (lines 188-205); the two differ in the store type only. \<open>assertions["private"]["id"]\<close>
  on the empty dict raises \<open>KeyError\<close>.
\<close>

definition assertions_list ::
  "string \<Rightarrow> Address \<Rightarrow> int \<Rightarrow> Assertions \<Rightarrow> content \<Rightarrow> StoreTypes \<Rightarrow> exn + StoreEntry list" where
  "assertions_list chain_name content_asset_storage_address token_id assertions content store_type =
    (let lst = [\<lparr>se_blockchain = chain_name,
                 se_contract = content_asset_storage_address,
                 se_tokenId = token_id,
                 se_assertionId = id' (public' assertions),
                 se_assertion = content' (public' assertions),
                 se_storeType = StoreTypes_value store_type\<rparr>]
     in
     if has_part (private_part content) then
       (case private' assertions of
          None \<Rightarrow> Inl KeyError
        | Some p \<Rightarrow>
            Inr (lst @ [\<lparr>se_blockchain = chain_name,
                         se_contract = content_asset_storage_address,
                         se_tokenId = token_id,
                         se_assertionId = private_id p,
                         se_assertion = private_content p,
                         se_storeType = StoreTypes_value store_type\<rparr>]))
     else Inr lst)"

text \<open>
  \<open>ContentAsset.create\<close> (lines 42-131), in the order of the source: the token amount
  (lines 55-65), the mint with its compensation (lines 70-83), local store and publish
  (lines 92-131), and the method itself.
\<close>

definition create_token_amount ::
  "env \<Rightarrow> lib \<Rightarrow> string \<Rightarrow> int \<Rightarrow> Assertions \<Rightarrow> Address \<Rightarrow> int option \<Rightarrow> int io" where
  "create_token_amount E L chain_name epochs_number assertions content_asset_storage_address
     token_amount =
    (case token_amount of
       None \<Rightarrow>
         bnd (call (GetBidSuggestion chain_name epochs_number
                      (size' (metadata (public' assertions))) content_asset_storage_address
                      (id' (public' assertions)) HASH_FUNCTION_ID)
                (\<lambda>h. req_get_bid_suggestion E h chain_name epochs_number
                      (size' (metadata (public' assertions))) content_asset_storage_address
                      (id' (public' assertions)) HASH_FUNCTION_ID)) (\<lambda>response.
         pure (py_int L (bidSuggestion response)))
     | Some t \<Rightarrow> ret t)"

definition create_args :: "Assertions \<Rightarrow> bytes \<Rightarrow> int \<Rightarrow> int \<Rightarrow> bool \<Rightarrow> CreateAssetArgs" where
  "create_args assertions assertion_id_bytes token_amount epochs_number immutable =
    \<lparr>ca_assertionId = assertion_id_bytes,
     ca_size = size' (metadata (public' assertions)),
     ca_triplesNumber = triples_number (metadata (public' assertions)),
     ca_chunksNumber = chunks_number (metadata (public' assertions)),
     ca_tokenAmount = token_amount,
     ca_epochsNumber = epochs_number,
     ca_scoreFunctionId = SCORE_FUNCTION_ID,
     ca_immutable = immutable\<rparr>"

text \<open>
  \<open>Web3.to_bytes(hexstr=s)\<close>: a string that is not hexadecimal raises \<open>ValueError\<close>; the
  conversion makes no contract call, so it raises no \<open>ContractLogicError\<close>.
\<close>

definition Web3_to_bytes :: "lib \<Rightarrow> HexStr \<Rightarrow> exn + bytes" where
  "Web3_to_bytes L s = (case to_bytes L s of None \<Rightarrow> Inl ValueError | Some b \<Rightarrow> Inr b)"

definition create_mint ::
  "env \<Rightarrow> lib \<Rightarrow> Address \<Rightarrow> int \<Rightarrow> int \<Rightarrow> bool \<Rightarrow> Assertions \<Rightarrow> Receipt io" where
  "create_mint E L service_agreement_v1_address token_amount epochs_number immutable assertions =
    try_except
      (bnd (pure (Web3_to_bytes L (id' (public' assertions)))) (\<lambda>assertion_id_bytes.
       call (CreateAsset (create_args assertions assertion_id_bytes token_amount
                            epochs_number immutable))
         (\<lambda>h. req_create E h (create_args assertions assertion_id_bytes token_amount
                                 epochs_number immutable))))
      (\<lambda>err. case err of
           ContractLogicError msg \<Rightarrow>
             bnd (call (DecreaseAllowance service_agreement_v1_address token_amount)
                    (\<lambda>h. req_decrease_allowance E h service_agreement_v1_address token_amount))
                 (\<lambda>_. throw err)
         | _ \<Rightarrow> throw err)"

definition create_store_and_publish ::
  "env \<Rightarrow> lib \<Rightarrow> string \<Rightarrow> Address \<Rightarrow> int \<Rightarrow> Assertions \<Rightarrow> content \<Rightarrow> AssetResult io" where
  "create_store_and_publish E L chain_name content_asset_storage_address token_id assertions
     content =
    bnd (pure (assertions_list chain_name content_asset_storage_address token_id
                 assertions content TRIPLE)) (\<lambda>assertions_list.
    bnd (call (LocalStore assertions_list) (\<lambda>h. req_local_store E h assertions_list))
        (\<lambda>response.
    bnd (get_operation_result E (operationId response) ''local-store'') (\<lambda>_.
    bnd (call (Publish (id' (public' assertions)) (content' (public' assertions)) chain_name
                 content_asset_storage_address token_id HASH_FUNCTION_ID)
           (\<lambda>h. req_publish E h (id' (public' assertions)) (content' (public' assertions))
                 chain_name content_asset_storage_address token_id HASH_FUNCTION_ID))
        (\<lambda>response.
    bnd (get_operation_result E (operationId response) ''publish'') (\<lambda>operation_result.
    ret \<lparr>r_UAL = format_ual L chain_name content_asset_storage_address token_id,
         r_publicAssertionId = id' (public' assertions),
         r_operationId = operationId response,
         r_status = status operation_result\<rparr>)))))"

definition create ::
  "env \<Rightarrow> lib \<Rightarrow> content \<Rightarrow> int \<Rightarrow> int option \<Rightarrow> bool \<Rightarrow> content_type \<Rightarrow> AssetResult io" where
  "create E L content epochs_number token_amount immutable content_type =
    bnd (pure (process_content L content content_type)) (\<lambda>assertions.
    bnd (call ChainId (req_chain_id E)) (\<lambda>cid.
    bnd (pure (lookup_network E cid)) (\<lambda>chain_name.
    bnd (call (GetAssetStorageAddress ''ContentAssetStorage'')
           (\<lambda>h. req_get_asset_storage_address E h ''ContentAssetStorage''))
        (\<lambda>content_asset_storage_address.
    bnd (create_token_amount E L chain_name epochs_number assertions
           content_asset_storage_address token_amount) (\<lambda>token_amount.
    bnd (call (GetContractAddress ''ServiceAgreementV1'')
           (\<lambda>h. req_get_contract_address E h ''ServiceAgreementV1''))
        (\<lambda>service_agreement_v1_address.
    bnd (call (IncreaseAllowance service_agreement_v1_address token_amount)
           (\<lambda>h. req_increase_allowance E h service_agreement_v1_address token_amount)) (\<lambda>_.
    bnd (create_mint E L service_agreement_v1_address token_amount epochs_number immutable
           assertions) (\<lambda>receipt.
    bnd (pure (decode_logs_event E receipt ''ContentAsset'' ''AssetMinted'')) (\<lambda>events.
    bnd (pure (getitem0 events)) (\<lambda>token_id.
    create_store_and_publish E L chain_name content_asset_storage_address token_id
      assertions content))))))))))"

text \<open>\<open>ContentAsset.get_agreement_id\<close> (lines 322-325).\<close>

definition get_agreement_id :: "env \<Rightarrow> lib \<Rightarrow> Address \<Rightarrow> int \<Rightarrow> HexStr io" where
  "get_agreement_id E L contract_address token_id =
    bnd (call (GetAssertionIdByIndex token_id 0)
           (\<lambda>h. req_get_assertion_id_by_index E h token_id 0)) (\<lambda>first_assertion_id.
    bnd (pure (generate_keyword L contract_address first_assertion_id)) (\<lambda>keyword.
    pure (generate_agreement_id L contract_address token_id keyword)))"

text \<open>
  \<open>math.floor(a / b)\<close> on Python integers. \<open>a / b\<close> is the correctly rounded
  floating-point quotient; division by zero raises. Where both operands are below
  \<open>2 ^ 53\<close> in magnitude no integer lies between the quotient and its rounding, so the
  floor is that of the exact quotient; beyond, the result is the parameter
  \<open>float_floor_div\<close>.
\<close>

definition floor_truediv :: "lib \<Rightarrow> int \<Rightarrow> int \<Rightarrow> exn + int" where
  "floor_truediv L a b =
    (if b = 0 then Inl ZeroDivisionError
     else if \<bar>a\<bar> < 2 ^ 53 \<and> \<bar>b\<bar> < 2 ^ 53 then Inr (a div b)
     else float_floor_div L a b)"

text \<open>
  \<open>ContentAsset.update\<close> (lines 140-227), in the order of the source: the token amount
  (lines 154-177), local store and update (lines 188-227), and the method itself.
\<close>

definition update_token_amount ::
  "env \<Rightarrow> lib \<Rightarrow> string \<Rightarrow> Address \<Rightarrow> int \<Rightarrow> Assertions \<Rightarrow> int option \<Rightarrow> int io" where
  "update_token_amount E L chain_name content_asset_storage_address token_id assertions
     token_amount =
    (case token_amount of
       None \<Rightarrow>
         bnd (get_agreement_id E L content_asset_storage_address token_id) (\<lambda>agreement_id.
         bnd (call (GetServiceAgreementData agreement_id)
                (\<lambda>h. req_get_service_agreement_data E h agreement_id)) (\<lambda>agreement_data.
         bnd (call (GetBlock ''latest'') (\<lambda>h. req_get_block E h ''latest'')) (\<lambda>block.
         bnd (pure (floor_truediv L (block_timestamp block - startTime agreement_data)
                      (epochLength agreement_data))) (\<lambda>current_epoch.
         bnd (call (GetBidSuggestion chain_name (epochsNumber agreement_data - current_epoch)
                      (size' (metadata (public' assertions))) content_asset_storage_address
                      (id' (public' assertions)) HASH_FUNCTION_ID)
                (\<lambda>h. req_get_bid_suggestion E h chain_name
                      (epochsNumber agreement_data - current_epoch)
                      (size' (metadata (public' assertions))) content_asset_storage_address
                      (id' (public' assertions)) HASH_FUNCTION_ID)) (\<lambda>response.
         bnd (pure (py_int L (bidSuggestion response))) (\<lambda>token_amount.
         bnd (pure (getitem0 (tokensInfo agreement_data))) (\<lambda>escrowed.
         ret (if token_amount - escrowed > 0 then token_amount - escrowed else 0))))))))
     | Some t \<Rightarrow> ret t)"

definition update_args :: "int \<Rightarrow> Assertions \<Rightarrow> int \<Rightarrow> UpdateAssetStateArgs" where
  "update_args token_id assertions token_amount =
    \<lparr>ua_token_id = token_id,
     ua_assertion_id = id' (public' assertions),
     ua_size = size' (metadata (public' assertions)),
     ua_triples_number = triples_number (metadata (public' assertions)),
     ua_chunks_number = chunks_number (metadata (public' assertions)),
     ua_update_token_amount = token_amount\<rparr>"

definition update_store_and_update ::
  "env \<Rightarrow> lib \<Rightarrow> string \<Rightarrow> Address \<Rightarrow> int \<Rightarrow> Assertions \<Rightarrow> content \<Rightarrow> AssetResult io" where
  "update_store_and_update E L chain_name content_asset_storage_address token_id assertions
     content =
    bnd (pure (assertions_list chain_name content_asset_storage_address token_id
                 assertions content PENDING)) (\<lambda>assertions_list.
    bnd (call (LocalStore assertions_list) (\<lambda>h. req_local_store E h assertions_list))
        (\<lambda>response.
    bnd (get_operation_result E (operationId response) ''local-store'') (\<lambda>_.
    bnd (call (Update (id' (public' assertions)) (content' (public' assertions)) chain_name
                 content_asset_storage_address token_id HASH_FUNCTION_ID)
           (\<lambda>h. req_update E h (id' (public' assertions)) (content' (public' assertions))
                 chain_name content_asset_storage_address token_id HASH_FUNCTION_ID))
        (\<lambda>response.
    bnd (get_operation_result E (operationId response) ''update'') (\<lambda>operation_result.
    ret \<lparr>r_UAL = format_ual L chain_name content_asset_storage_address token_id,
         r_publicAssertionId = id' (public' assertions),
         r_operationId = operationId response,
         r_status = status operation_result\<rparr>)))))"

definition update ::
  "env \<Rightarrow> lib \<Rightarrow> UAL \<Rightarrow> content \<Rightarrow> int option \<Rightarrow> content_type \<Rightarrow> AssetResult io" where
  "update E L ual content token_amount content_type =
    bnd (pure (parse_ual L ual)) (\<lambda>parsed_ual.
    bnd (pure (process_content L content content_type)) (\<lambda>assertions.
    bnd (call ChainId (req_chain_id E)) (\<lambda>cid.
    bnd (pure (lookup_network E cid)) (\<lambda>chain_name.
    bnd (update_token_amount E L chain_name (ual_contract_address parsed_ual)
           (ual_token_id parsed_ual) assertions token_amount) (\<lambda>token_amount.
    bnd (call (UpdateAssetState (update_args (ual_token_id parsed_ual) assertions token_amount))
           (\<lambda>h. req_update_asset_state E h
                 (update_args (ual_token_id parsed_ual) assertions token_amount))) (\<lambda>_.
    update_store_and_update E L chain_name (ual_contract_address parsed_ual)
      (ual_token_id parsed_ual) assertions content))))))"

text \<open>
  \<open>ContentAsset.get\<close> (lines 233-273). The nested function \<open>get_operation_result\<close>
  (lines 238-245) ends after \<open>validate_operation_status(operation_result)\<close>: it has no
  \<open>return\<close> statement, so a completed attempt yields Python's \<open>None\<close>, here the \<open>None\<close>
  of \<open>NodeResponseDict option\<close>.
\<close>

definition get_nested_get_operation_result :: "env \<Rightarrow> string \<Rightarrow> NodeResponseDict option io" where
  "get_nested_get_operation_result E operation_id =
    retry is_OperationNotFinished 5 1 2
      (bnd (call (GetOperationResult operation_id ''get'')
              (\<lambda>h. req_get_operation_result E h operation_id ''get'')) (\<lambda>operation_result.
       bnd (pure (validate_operation_status operation_result)) (\<lambda>_.
       ret None)))"

text \<open>
  \<open>operation_result['data']\<close> and \<open>operation_result['status']\<close> where \<open>operation_result\<close>
  may be \<open>None\<close>: subscripting \<open>None\<close> raises \<open>TypeError\<close>, a missing key \<open>KeyError\<close>.
\<close>

definition subscript_data :: "NodeResponseDict option \<Rightarrow> exn + OperationData" where
  "subscript_data operation_result =
    (case operation_result of
       None \<Rightarrow> Inl TypeError
     | Some r \<Rightarrow> (case data r of None \<Rightarrow> Inl KeyError | Some d \<Rightarrow> Inr d))"

definition subscript_status :: "NodeResponseDict option \<Rightarrow> exn + OperationStatus" where
  "subscript_status operation_result =
    (case operation_result of None \<Rightarrow> Inl TypeError | Some r \<Rightarrow> Inr (status r))"

text \<open>\<open>'\n'.join(assertion)\<close>.\<close>

fun join_lines :: "string list \<Rightarrow> string" where
  "join_lines [] = []"
| "join_lines [x] = x"
| "join_lines (x # y # ys) = x @ [CHR 0x0A] @ join_lines (y # ys)"

definition get :: "env \<Rightarrow> lib \<Rightarrow> UAL \<Rightarrow> bool \<Rightarrow> GetResult io" where
  "get E L ual validate =
    bnd (call (Get ual 1) (\<lambda>h. req_get E h ual 1)) (\<lambda>response.
    let operation_id = operationId response in
    bnd (get_nested_get_operation_result E operation_id) (\<lambda>operation_result.
    bnd (pure (subscript_data operation_result)) (\<lambda>d.
    let assertion = data_assertion d in
    bnd (pure (parse_ual L ual)) (\<lambda>parsed_ual.
    let token_id = ual_token_id parsed_ual in
    bnd (call (GetLatestAssertionId token_id) (\<lambda>h. req_get_latest_assertion_id E h token_id))
        (\<lambda>latest.
    let latest_assertion_id = to_hex L latest in
    bnd (if validate then
           bnd (pure (merkle_root L assertion)) (\<lambda>root.
           if root \<noteq> latest_assertion_id
           then throw (InvalidAsset latest_assertion_id root)
           else ret ())
         else ret ()) (\<lambda>_.
    bnd (pure (from_rdf L (join_lines assertion))) (\<lambda>assertion_json_ld.
    bnd (pure (subscript_status operation_result)) (\<lambda>operation_status.
    ret \<lparr>g_assertionId = latest_assertion_id,
         g_assertion = assertion_json_ld,
         g_operation_id = operation_id,
         g_status = operation_status\<rparr>))))))))"

text \<open>\<open>ContentAsset.owner\<close> (lines 277-278).\<close>

definition owner :: "env \<Rightarrow> int \<Rightarrow> Address io" where
  "owner E token_id = call (Owner token_id) (\<lambda>h. req_owner E h token_id)"

section \<open>Trace predicates\<close>

text \<open>\<open>emits P m\<close>: whatever the history, every event \<open>m\<close> emits satisfies \<open>P\<close>.\<close>

definition emits :: "(event \<Rightarrow> bool) \<Rightarrow> 'a io \<Rightarrow> bool" where
  "emits P m = (\<forall>h. \<forall>ev \<in> set (snd (m h)). P ev)"

text \<open>The events of polling: a sleep or a \<open>get_operation_result\<close> request.\<close>

fun is_poll :: "event \<Rightarrow> bool" where
  "is_poll (Sleep d) = True"
| "is_poll (GetOperationResult i opn x) = True"
| "is_poll _ = False"

text \<open>The outcome of one polling attempt, given the node's answer.\<close>

definition poll_outcome :: "exn + NodeResponseDict \<Rightarrow> exn + NodeResponseDict" where
  "poll_outcome y =
    (case y of
       Inl e \<Rightarrow> Inl e
     | Inr r \<Rightarrow> (case status r of
          Pending \<Rightarrow> Inl OperationNotFinished
        | Completed \<Rightarrow> Inr r
        | Failed \<Rightarrow> Inl (OperationFailed (data r))))"

text \<open>
  A run of \<open>create\<close> that ends in the compensation: the trace ends with the lookup of
  the service-agreement contract, the increase of its allowance, the rejected mint and the
  decrease of its allowance by the same amount; the run raises the mint's error, or the
  error of the decrease if that call fails too.
\<close>

definition rolled_back :: "CreateAssetArgs \<Rightarrow> string \<Rightarrow> exn + AssetResult \<Rightarrow> event list \<Rightarrow> bool" where
  "rolled_back args msg r es =
     (\<exists>pre sa x. es = pre @ [GetContractAddress ''ServiceAgreementV1'' (Inr sa),
                              IncreaseAllowance sa (ca_tokenAmount args) (Inr ()),
                              CreateAsset args (Inl (ContractLogicError msg)),
                              DecreaseAllowance sa (ca_tokenAmount args) x] \<and>
        r = (case x of Inr _ \<Rightarrow> Inl (ContractLogicError msg) | Inl e \<Rightarrow> Inl e))"

text \<open>The compensating call.\<close>

fun is_DecreaseAllowance :: "event \<Rightarrow> bool" where
  "is_DecreaseAllowance (DecreaseAllowance sa t x) = True"
| "is_DecreaseAllowance _ = False"

text \<open>
  A run of \<open>create\<close> that ends with a failed mint and no compensation: the trace ends
  with the lookup of the service-agreement contract, the increase of its allowance and
  the failed mint, no decrease precedes them, and the run raises the mint's error.
\<close>

definition not_rolled_back :: "CreateAssetArgs \<Rightarrow> exn \<Rightarrow> exn + AssetResult \<Rightarrow> event list \<Rightarrow> bool" where
  "not_rolled_back args e r es =
     (\<exists>pre sa. es = pre @ [GetContractAddress ''ServiceAgreementV1'' (Inr sa),
                            IncreaseAllowance sa (ca_tokenAmount args) (Inr ()),
                            CreateAsset args (Inl e)] \<and>
        (\<forall>ev\<in>set pre. \<not> is_DecreaseAllowance ev) \<and> r = Inl e)"

text \<open>
  What \<open>create\<close> may emit when the caller supplies the token amount \<open>t\<close>: no bid
  suggestion query, and \<open>t\<close> itself in every allowance change and in the mint.
\<close>

fun create_uses_amount :: "int \<Rightarrow> event \<Rightarrow> bool" where
  "create_uses_amount t (GetBidSuggestion c e s a i f x) = False"
| "create_uses_amount t (IncreaseAllowance sa amount x) = (amount = t)"
| "create_uses_amount t (DecreaseAllowance sa amount x) = (amount = t)"
| "create_uses_amount t (CreateAsset args x) = (ca_tokenAmount args = t)"
| "create_uses_amount t _ = True"

text \<open>
  What \<open>update\<close> may emit when the caller supplies the token amount \<open>t\<close>: no bid
  suggestion query, no lookup of the agreement (first assertion id, agreement data) or of
  the latest block, and \<open>t\<close> itself in the ledger write.
\<close>

fun update_uses_amount :: "int \<Rightarrow> event \<Rightarrow> bool" where
  "update_uses_amount t (GetBidSuggestion c e s a i f x) = False"
| "update_uses_amount t (GetAssertionIdByIndex i n x) = False"
| "update_uses_amount t (GetServiceAgreementData a x) = False"
| "update_uses_amount t (GetBlock b x) = False"
| "update_uses_amount t (UpdateAssetState args x) = (ua_update_token_amount args = t)"
| "update_uses_amount t _ = True"

text \<open>
  A LocalStore request that carries the public assertion, then the private assertion if
  there is one, every entry tagged with the store type \<open>tag\<close>.
\<close>

fun local_store_tagged :: "string \<Rightarrow> Assertions \<Rightarrow> event \<Rightarrow> bool" where
  "local_store_tagged tag a (LocalStore lst x) =
     (map (\<lambda>e. (se_assertionId e, se_assertion e, se_storeType e)) lst =
        (id' (public' a), content' (public' a), tag) #
        (case private' a of
           Some p \<Rightarrow> [(private_id p, private_content p, tag)]
         | None \<Rightarrow> []))"
| "local_store_tagged tag a _ = True"

text \<open>
  A run of \<open>update\<close> whose ledger write carries an estimated amount: the write follows the
  lookups of the first assertion id, of the agreement and of the latest block and the bid
  suggestion query for the epochs left, the current epoch being the floor of
  \<open>(now - startTime) / epochLength\<close> (the exact one where the floating-point division is
  exact), and its amount is the bid less the escrowed \<open>tokensInfo[0]\<close>, floored at zero.
\<close>

definition amount_derived :: "lib \<Rightarrow> UpdateAssetStateArgs \<Rightarrow> exn + unit \<Rightarrow> event list \<Rightarrow> bool" where
  "amount_derived L args x es =
    (\<exists>pre post first aid ad blk ce chain sz casa pid resp bid esc rest.
       es = pre @
         [GetAssertionIdByIndex (ua_token_id args) 0 (Inr first),
          GetServiceAgreementData aid (Inr ad),
          GetBlock ''latest'' (Inr blk),
          GetBidSuggestion chain (epochsNumber ad - ce) sz casa pid HASH_FUNCTION_ID (Inr resp),
          UpdateAssetState args x] @ post \<and>
       floor_truediv L (block_timestamp blk - startTime ad) (epochLength ad) = Inr ce \<and>
       epochLength ad \<noteq> 0 \<and>
       (\<bar>block_timestamp blk - startTime ad\<bar> < 2 ^ 53 \<and> \<bar>epochLength ad\<bar> < 2 ^ 53 \<longrightarrow>
          ce = (block_timestamp blk - startTime ad) div epochLength ad) \<and>
       py_int L (bidSuggestion resp) = Inr bid \<and>
       tokensInfo ad = esc # rest \<and>
       ua_update_token_amount args = max 0 (bid - esc))"

section \<open>Mock collaborators\<close>

text \<open>
  Collaborators for concrete runs, after the end-to-end example of the spec: chain "otp",
  storage contract \<open>0xStorage\<close>, bid suggestion 100, minted token id 7. The canonicaliser
  is a toy: one statement per element of \<open>@graph\<close>, made of its first key and value; the
  Merkle root is the concatenation of the statements.
\<close>

definition mock_statement :: "JSONLD \<Rightarrow> string" where
  "mock_statement item =
     (case item of JObj ((k, JStr v) # _) \<Rightarrow> k @ '' '' @ v | _ \<Rightarrow> ''_'')"

definition mock_lib :: lib where
  "mock_lib =
    \<lparr>normalize_dataset = (\<lambda>j t. case j of
         JObj [(g, JList items)] \<Rightarrow> Inr (map mock_statement items)
       | _ \<Rightarrow> Inr [mock_statement j]),
     merkle_root = (\<lambda>a. Inr (''0x'' @ concat a)),
     generate_assertion_metadata = (\<lambda>a.
       Inr \<lparr>size' = int (length (concat a)), triples_number = int (length a), chunks_number = 1\<rparr>),
     from_rdf = (\<lambda>s. Inr [JStr s]),
     parse_ual = (\<lambda>u. if u = ''otp:0xStorage:7''
       then Inr \<lparr>ual_blockchain = ''otp'', ual_contract_address = ''0xStorage'', ual_token_id = 7\<rparr>
       else Inl (OtherError ''ValidationError'')),
     format_ual = (\<lambda>c a t. c @ '':'' @ a @ '':'' @ (if t = 7 then ''7'' else ''?'')),
     generate_keyword = (\<lambda>a b. Inr b),
     generate_agreement_id = (\<lambda>a t k. Inr ''0xAgreement''),
     to_bytes = (\<lambda>s. Some (map of_char s)),
     to_hex = map char_of,
     py_int = (\<lambda>s. if s = ''100'' then Inr 100 else Inl ValueError),
     float_floor_div = (\<lambda>a b. Inl (OtherError ''OverflowError''))\<rparr>"

definition mock_env :: env where
  "mock_env =
    \<lparr>req_chain_id = (\<lambda>h. Inr 2043),
     SUPPORTED_NETWORKS = (\<lambda>c. if c = 2043 then Some ''otp'' else None),
     req_get_asset_storage_address = (\<lambda>h n. Inr ''0xStorage''),
     req_get_contract_address = (\<lambda>h n. Inr ''0xAgreementV1''),
     req_increase_allowance = (\<lambda>h a n. Inr ()),
     req_decrease_allowance = (\<lambda>h a n. Inr ()),
     req_create = (\<lambda>h a. Inr (Receipt ''0xTx'')),
     decode_logs_event = (\<lambda>r c e. Inr [7]),
     req_get_bid_suggestion = (\<lambda>h c e s a i f. Inr \<lparr>bidSuggestion = ''100''\<rparr>),
     req_local_store = (\<lambda>h l. Inr \<lparr>operationId = ''op-store''\<rparr>),
     req_publish = (\<lambda>h i c n a t f. Inr \<lparr>operationId = ''op-publish''\<rparr>),
     req_update = (\<lambda>h i c n a t f. Inr \<lparr>operationId = ''op-update''\<rparr>),
     req_get = (\<lambda>h u f. Inr \<lparr>operationId = ''op-get''\<rparr>),
     req_get_operation_result = (\<lambda>h i opn.
       Inr \<lparr>status = Completed, data = Some \<lparr>data_assertion = [''@id ex:1'']\<rparr>\<rparr>),
     req_get_block = (\<lambda>h t. Inr \<lparr>block_timestamp = 1000\<rparr>),
     req_get_service_agreement_data = (\<lambda>h a.
       Inr \<lparr>startTime = 400, epochsNumber = 5, epochLength = 300, tokensInfo = [250, 0]\<rparr>),
     req_update_asset_state = (\<lambda>h a. Inr ()),
     req_get_latest_assertion_id = (\<lambda>h t. Inr (map of_char ''0x@id ex:1'')),
     req_get_assertion_id_by_index = (\<lambda>h t i. Inr [1, 2, 3]),
     req_owner = (\<lambda>h t. Inr ''0xOwner'')\<rparr>"

text \<open>The mock ledger with a mint that reverts, or fails otherwise.\<close>

definition mock_env_mint :: "exn \<Rightarrow> env" where
  "mock_env_mint e = mock_env\<lparr>req_create := (\<lambda>h a. Inl e)\<rparr>"

text \<open>The mock node with one fixed answer to every poll.\<close>

definition mock_env_poll :: "OperationStatus \<Rightarrow> env" where
  "mock_env_poll st =
     mock_env\<lparr>req_get_operation_result := (\<lambda>h i opn. Inr \<lparr>status = st, data = None\<rparr>)\<rparr>"

definition mock_content :: content where
  "mock_content = \<lparr>public_part = Some (JObj [(''@id'', JStr ''ex:1''), (''name'', JStr ''A'')]),
                   private_part = None\<rparr>"

definition mock_private_content :: content where
  "mock_private_content =
     \<lparr>public_part = Some (JObj [(''@id'', JStr ''ex:1''), (''name'', JStr ''A'')]),
      private_part = Some (JObj [(''secret'', JStr ''s'')])\<rparr>"

definition mock_args :: CreateAssetArgs where
  "mock_args = \<lparr>ca_assertionId = [48, 120, 64, 105, 100, 32, 101, 120, 58, 49],
       ca_size = 8, ca_triplesNumber = 1, ca_chunksNumber = 1,
       ca_tokenAmount = 100, ca_epochsNumber = 2, ca_scoreFunctionId = 1,
       ca_immutable = False\<rparr>"

text \<open>What the mock collaborators make of content with a private part.\<close>

definition mock_private_assertions :: Assertions where
  "mock_private_assertions =
     \<lparr>public' =
        \<lparr>id' = ''0x@id ex:1'' @ PRIVATE_ASSERTION_PREDICATE @ '' 0xsecret s'',
         content' = [''@id ex:1'', PRIVATE_ASSERTION_PREDICATE @ '' 0xsecret s''],
         metadata = \<lparr>size' = 77, triples_number = 2, chunks_number = 1\<rparr>\<rparr>,
      private' = Some \<lparr>private_id = ''0xsecret s'', private_content = [''secret s'']\<rparr>\<rparr>"

definition mock_store_entries :: "string \<Rightarrow> StoreEntry list" where
  "mock_store_entries tag =
     [\<lparr>se_blockchain = ''otp'', se_contract = ''0xStorage'', se_tokenId = 7,
       se_assertionId = id' (public' mock_private_assertions),
       se_assertion = content' (public' mock_private_assertions),
       se_storeType = tag\<rparr>,
      \<lparr>se_blockchain = ''otp'', se_contract = ''0xStorage'', se_tokenId = 7,
       se_assertionId = ''0xsecret s'', se_assertion = [''secret s''],
       se_storeType = tag\<rparr>]"

definition mock_update_args :: UpdateAssetStateArgs where
  "mock_update_args =
     \<lparr>ua_token_id = 7, ua_assertion_id = ''0x@id ex:1'', ua_size = 8,
      ua_triples_number = 1, ua_chunks_number = 1, ua_update_token_amount = 0\<rparr>"

section \<open>Reasoning about runs\<close>

lemma fst_bnd:
  "fst (bnd m f h) = (case fst (m h) of Inl e \<Rightarrow> Inl e | Inr x \<Rightarrow> fst (f x (h @ snd (m h))))"
  by (simp add: bnd_def split: prod.splits sum.splits)

lemma snd_bnd:
  "snd (bnd m f h) =
     (case fst (m h) of Inl e \<Rightarrow> snd (m h) | Inr x \<Rightarrow> snd (m h) @ snd (f x (h @ snd (m h))))"
  by (simp add: bnd_def split: prod.splits sum.splits)

lemma fst_try_except:
  "fst (try_except m f h) =
     (case fst (m h) of Inr x \<Rightarrow> Inr x | Inl e \<Rightarrow> fst (f e (h @ snd (m h))))"
  by (simp add: try_except_def split: prod.splits sum.splits)

lemma snd_try_except:
  "snd (try_except m f h) =
     (case fst (m h) of Inr x \<Rightarrow> snd (m h) | Inl e \<Rightarrow> snd (m h) @ snd (f e (h @ snd (m h))))"
  by (simp add: try_except_def split: prod.splits sum.splits)

lemma fst_call: "fst (call ev req h) = req h"
  by (simp add: call_def)

lemma snd_call: "snd (call ev req h) = [ev (req h)]"
  by (simp add: call_def)

lemma fst_pure: "fst (pure r h) = r"
  by (simp add: pure_def)

lemma snd_pure: "snd (pure r h) = []"
  by (simp add: pure_def)

lemma fst_ret: "fst (ret x h) = Inr x"
  by (simp add: ret_def)

lemma snd_ret: "snd (ret x h) = []"
  by (simp add: ret_def)

lemma fst_throw: "fst (throw e h) = Inl e"
  by (simp add: throw_def)

lemma snd_throw: "snd (throw e h) = []"
  by (simp add: throw_def)

lemmas io_simps = fst_bnd snd_bnd fst_try_except snd_try_except fst_call snd_call
  fst_pure snd_pure fst_ret snd_ret fst_throw snd_throw

lemma emits_ret: "emits P (ret x)"
  by (simp add: emits_def ret_def)

lemma emits_throw: "emits P (throw x)"
  by (simp add: emits_def throw_def)

lemma emits_pure: "emits P (pure x)"
  by (simp add: emits_def pure_def)

lemma emits_sleep: "P (Sleep d) \<Longrightarrow> emits P (sleep d)"
  by (simp add: emits_def sleep_def)

lemma emits_call: "(\<And>x. P (ev x)) \<Longrightarrow> emits P (call ev req)"
  by (simp add: emits_def call_def)

lemma emits_bnd: "emits P m \<Longrightarrow> (\<And>x. emits P (f x)) \<Longrightarrow> emits P (bnd m f)"
  by (auto simp: emits_def snd_bnd split: sum.splits)

lemma emits_bnd_pure: "(\<And>x. r = Inr x \<Longrightarrow> emits P (f x)) \<Longrightarrow> emits P (bnd (pure r) f)"
  by (auto simp: emits_def snd_bnd fst_pure snd_pure split: sum.splits)

lemma emits_try_except:
  "emits P m \<Longrightarrow> (\<And>x. emits P (f x)) \<Longrightarrow> emits P (try_except m f)"
  by (auto simp: emits_def snd_try_except split: sum.splits)

lemma emits_retry: "(\<And>d. P (Sleep d)) \<Longrightarrow> emits P f \<Longrightarrow> emits P (retry c n d b f)"
  by (induction n arbitrary: d) (auto intro!: emits_bnd emits_try_except emits_sleep emits_throw)

lemma emits_weaken: "emits P m \<Longrightarrow> (\<And>ev. P ev \<Longrightarrow> Q ev) \<Longrightarrow> emits Q m"
  by (simp add: emits_def)

lemma emits_get_operation_result: "emits is_poll (get_operation_result E oid op)"
  unfolding get_operation_result_def get_operation_result_body_def
  by (intro emits_retry emits_bnd emits_call emits_pure emits_ret) simp_all

lemma emits_poll: "(\<And>ev. is_poll ev \<Longrightarrow> P ev) \<Longrightarrow> emits P (get_operation_result E oid op)"
  using emits_get_operation_result emits_weaken by blast

text \<open>
  Locating an event \<open>X\<close> behind a step that does not emit it: a property of the rest of
  the run that survives a prefix carries over to the whole run.
\<close>

lemma peel:
  assumes X: "X \<in> set (snd (bnd m f h))"
    and m: "emits (\<lambda>ev. ev \<noteq> X \<and> R ev) m"
    and pre: "\<And>r es pre. Q r es \<Longrightarrow> \<forall>ev\<in>set pre. R ev \<Longrightarrow> Q r (pre @ es)"
    and f: "\<And>x h'. X \<in> set (snd (f x h')) \<Longrightarrow> Q (fst (f x h')) (snd (f x h'))"
  shows "Q (fst (bnd m f h)) (snd (bnd m f h))"
proof (cases "fst (m h)")
  case (Inl e)
  with X have "X \<in> set (snd (m h))" by (simp add: snd_bnd)
  with m show ?thesis by (auto simp: emits_def)
next
  case (Inr x)
  from m have R: "\<forall>ev\<in>set (snd (m h)). R ev" and nX: "X \<notin> set (snd (m h))"
    by (auto simp: emits_def)
  from X Inr nX have "X \<in> set (snd (f x (h @ snd (m h))))" by (simp add: snd_bnd)
  from pre[OF f[OF this] R] Inr show ?thesis by (simp add: fst_bnd snd_bnd)
qed

section \<open>Polling\<close>

lemma get_operation_result_body_eq:
  "get_operation_result_body E oid op h =
     (poll_outcome (req_get_operation_result E h oid op),
      [GetOperationResult oid op (req_get_operation_result E h oid op)])"
  by (simp add: get_operation_result_body_def bnd_def call_def pure_def ret_def poll_outcome_def
      validate_operation_status_def split: sum.splits OperationStatus.splits)

lemma retry_Suc:
  "retry c (Suc n) d b f h =
    (case f (h @ [Sleep d]) of
       (Inr x, es) \<Rightarrow> (Inr x, Sleep d # es)
     | (Inl e, es) \<Rightarrow>
         if c e
         then (case retry c n (d * b) b f (h @ Sleep d # es) of (r, es') \<Rightarrow> (r, Sleep d # es @ es'))
         else (Inl e, Sleep d # es))"
  by (simp add: bnd_def sleep_def try_except_def throw_def split: sum.splits prod.splits)

text \<open>
  A Completed or Failed answer ends the polling: it is the last event, and it decides the
  outcome.
\<close>

lemma retry_terminal:
  "GetOperationResult oid op (Inr r) \<in>
     set (snd (retry is_OperationNotFinished n d b (get_operation_result_body E oid op) h)) \<Longrightarrow>
   status r \<noteq> Pending \<Longrightarrow>
   fst (retry is_OperationNotFinished n d b (get_operation_result_body E oid op) h) =
     (if status r = Completed then Inr r else Inl (OperationFailed (data r))) \<and>
   last (snd (retry is_OperationNotFinished n d b (get_operation_result_body E oid op) h)) =
     GetOperationResult oid op (Inr r)"
proof (induction n arbitrary: d h)
  case 0
  then show ?case by (simp add: throw_def)
next
  case (Suc n)
  let ?y = "req_get_operation_result E (h @ [Sleep d]) oid op"
  note b = get_operation_result_body_eq[of E oid op "h @ [Sleep d]"]
  show ?case
  proof (cases "poll_outcome ?y")
    case (Inr x)
    with Suc.prems b show ?thesis
      by (auto simp: retry_Suc poll_outcome_def simp del: retry.simps
          split: sum.splits OperationStatus.splits)
  next
    case (Inl e)
    show ?thesis
    proof (cases "is_OperationNotFinished e")
      case False
      with Inl Suc.prems b show ?thesis
        by (auto simp: retry_Suc poll_outcome_def simp del: retry.simps
            split: sum.splits OperationStatus.splits)
    next
      case True
      with Inl Suc.prems b have "GetOperationResult oid op (Inr r) \<in>
          set (snd (retry is_OperationNotFinished n (d * b) b (get_operation_result_body E oid op)
                 (h @ [Sleep d, GetOperationResult oid op ?y])))"
        by (auto simp: retry_Suc poll_outcome_def simp del: retry.simps
            split: sum.splits OperationStatus.splits prod.splits)
      from Suc.IH[OF this Suc.prems(2)] this True Inl b show ?thesis
        by (auto simp: retry_Suc simp del: retry.simps split: prod.splits)
    qed
  qed
qed

text \<open>A node that always answers Pending: five attempts, then \<open>OperationNotFinished\<close>.\<close>

lemma retry_pending:
  assumes "\<And>h'. \<exists>r. req_get_operation_result E h' oid op = Inr r \<and> status r = Pending"
  shows "\<exists>r1 r2 r3 r4 r5. get_operation_result E oid op h =
     (Inl OperationNotFinished,
      [Sleep 1, GetOperationResult oid op (Inr r1),
       Sleep 2, GetOperationResult oid op (Inr r2),
       Sleep 4, GetOperationResult oid op (Inr r3),
       Sleep 8, GetOperationResult oid op (Inr r4),
       Sleep 16, GetOperationResult oid op (Inr r5)]) \<and>
     status r1 = Pending \<and> status r2 = Pending \<and> status r3 = Pending \<and>
     status r4 = Pending \<and> status r5 = Pending"
proof -
  define B where "B = get_operation_result_body E oid op"
  have step: "\<exists>r. B h' = (Inl OperationNotFinished, [GetOperationResult oid op (Inr r)]) \<and>
      status r = Pending" for h'
  proof -
    from assms obtain r where "req_get_operation_result E h' oid op = Inr r" "status r = Pending"
      by blast
    then show ?thesis
      unfolding B_def get_operation_result_body_eq by (simp add: poll_outcome_def)
  qed
  obtain r1 where r1: "B (h @ [Sleep 1]) =
      (Inl OperationNotFinished, [GetOperationResult oid op (Inr r1)])" "status r1 = Pending"
    using step by blast
  obtain r2 where r2: "B (h @ [Sleep 1, GetOperationResult oid op (Inr r1)] @ [Sleep 2]) =
      (Inl OperationNotFinished, [GetOperationResult oid op (Inr r2)])" "status r2 = Pending"
    using step by blast
  obtain r3 where r3: "B (h @ [Sleep 1, GetOperationResult oid op (Inr r1),
        Sleep 2, GetOperationResult oid op (Inr r2)] @ [Sleep 4]) =
      (Inl OperationNotFinished, [GetOperationResult oid op (Inr r3)])" "status r3 = Pending"
    using step by blast
  obtain r4 where r4: "B (h @ [Sleep 1, GetOperationResult oid op (Inr r1),
        Sleep 2, GetOperationResult oid op (Inr r2),
        Sleep 4, GetOperationResult oid op (Inr r3)] @ [Sleep 8]) =
      (Inl OperationNotFinished, [GetOperationResult oid op (Inr r4)])" "status r4 = Pending"
    using step by blast
  obtain r5 where r5: "B (h @ [Sleep 1, GetOperationResult oid op (Inr r1),
        Sleep 2, GetOperationResult oid op (Inr r2),
        Sleep 4, GetOperationResult oid op (Inr r3),
        Sleep 8, GetOperationResult oid op (Inr r4)] @ [Sleep 16]) =
      (Inl OperationNotFinished, [GetOperationResult oid op (Inr r5)])" "status r5 = Pending"
    using step by blast
  have five: "(5::nat) = Suc (Suc (Suc (Suc (Suc 0))))" by simp
  have "retry is_OperationNotFinished 5 1 2 B h =
     (Inl OperationNotFinished,
      [Sleep 1, GetOperationResult oid op (Inr r1),
       Sleep 2, GetOperationResult oid op (Inr r2),
       Sleep 4, GetOperationResult oid op (Inr r3),
       Sleep 8, GetOperationResult oid op (Inr r4),
       Sleep 16, GetOperationResult oid op (Inr r5)])"
    unfolding five using r1 r2 r3 r4 r5 by (simp add: retry_Suc throw_def del: retry.simps(2))
  then show ?thesis using r1 r2 r3 r4 r5 unfolding get_operation_result_def B_def by blast
qed

lemma mock_poll_completed:
  "get_operation_result mock_env ''op-publish'' ''publish'' [] =
     (Inr \<lparr>status = Completed, data = Some \<lparr>data_assertion = [''@id ex:1'']\<rparr>\<rparr>,
      [Sleep 1, GetOperationResult ''op-publish'' ''publish''
         (Inr \<lparr>status = Completed, data = Some \<lparr>data_assertion = [''@id ex:1'']\<rparr>\<rparr>)])"
  by code_simp

lemma mock_poll_failed:
  "get_operation_result (mock_env_poll Failed) ''op-publish'' ''publish'' [] =
     (Inl (OperationFailed None),
      [Sleep 1, GetOperationResult ''op-publish'' ''publish''
         (Inr \<lparr>status = Failed, data = None\<rparr>)])"
  by code_simp

text \<open>
  Claim C2. Polling an operation that stays Pending makes exactly five attempts, with the
  delays 1, 2, 4, 8, 16, and then raises \<open>OperationNotFinished\<close>; a Completed answer is
  returned at once (it is the last event of the polling, and its result is the outcome); a
  Failed answer raises \<open>OperationFailed\<close> at once, with no further attempt. The decorator
  \<open>retry\<close> and \<open>validate_operation_status\<close> are modelled from the spec.
\<close>

theorem get_operation_result_retry_policy:
  "((\<forall>h'. \<exists>r. req_get_operation_result E h' oid op = Inr r \<and> status r = Pending) \<longrightarrow>
      (\<exists>r1 r2 r3 r4 r5. get_operation_result E oid op h =
         (Inl OperationNotFinished,
          [Sleep 1, GetOperationResult oid op (Inr r1),
           Sleep 2, GetOperationResult oid op (Inr r2),
           Sleep 4, GetOperationResult oid op (Inr r3),
           Sleep 8, GetOperationResult oid op (Inr r4),
           Sleep 16, GetOperationResult oid op (Inr r5)]))) \<and>
   (\<forall>r. GetOperationResult oid op (Inr r) \<in> set (snd (get_operation_result E oid op h)) \<and>
        status r = Completed \<longrightarrow>
        fst (get_operation_result E oid op h) = Inr r \<and>
        last (snd (get_operation_result E oid op h)) = GetOperationResult oid op (Inr r)) \<and>
   (\<forall>r. GetOperationResult oid op (Inr r) \<in> set (snd (get_operation_result E oid op h)) \<and>
        status r = Failed \<longrightarrow>
        fst (get_operation_result E oid op h) = Inl (OperationFailed (data r)) \<and>
        last (snd (get_operation_result E oid op h)) = GetOperationResult oid op (Inr r))"
proof (intro conjI impI allI)
  assume "\<forall>h'. \<exists>r. req_get_operation_result E h' oid op = Inr r \<and> status r = Pending"
  then show "\<exists>r1 r2 r3 r4 r5. get_operation_result E oid op h =
         (Inl OperationNotFinished,
          [Sleep 1, GetOperationResult oid op (Inr r1),
           Sleep 2, GetOperationResult oid op (Inr r2),
           Sleep 4, GetOperationResult oid op (Inr r3),
           Sleep 8, GetOperationResult oid op (Inr r4),
           Sleep 16, GetOperationResult oid op (Inr r5)])"
    using retry_pending[of E oid op h] by blast
next
  fix r
  assume a: "GetOperationResult oid op (Inr r) \<in> set (snd (get_operation_result E oid op h)) \<and>
        status r = Completed"
  then show "fst (get_operation_result E oid op h) = Inr r"
    and "last (snd (get_operation_result E oid op h)) = GetOperationResult oid op (Inr r)"
    using retry_terminal[of oid op r 5 1 2 E h] unfolding get_operation_result_def by simp_all
next
  fix r
  assume a: "GetOperationResult oid op (Inr r) \<in> set (snd (get_operation_result E oid op h)) \<and>
        status r = Failed"
  then show "fst (get_operation_result E oid op h) = Inl (OperationFailed (data r))"
    and "last (snd (get_operation_result E oid op h)) = GetOperationResult oid op (Inr r)"
    using retry_terminal[of oid op r 5 1 2 E h] unfolding get_operation_result_def by simp_all
qed

theorem get_operation_result_retry_policy_witness:
  "(\<exists>r1 r2 r3 r4 r5. get_operation_result (mock_env_poll Pending) ''op-publish'' ''publish'' [] =
      (Inl OperationNotFinished,
       [Sleep 1, GetOperationResult ''op-publish'' ''publish'' (Inr r1),
        Sleep 2, GetOperationResult ''op-publish'' ''publish'' (Inr r2),
        Sleep 4, GetOperationResult ''op-publish'' ''publish'' (Inr r3),
        Sleep 8, GetOperationResult ''op-publish'' ''publish'' (Inr r4),
        Sleep 16, GetOperationResult ''op-publish'' ''publish'' (Inr r5)])) \<and>
   fst (get_operation_result mock_env ''op-publish'' ''publish'' []) =
     Inr \<lparr>status = Completed, data = Some \<lparr>data_assertion = [''@id ex:1'']\<rparr>\<rparr> \<and>
   fst (get_operation_result (mock_env_poll Failed) ''op-publish'' ''publish'' []) =
     Inl (OperationFailed None)"
proof -
  have p: "\<forall>h'. \<exists>r. req_get_operation_result (mock_env_poll Pending) h' ''op-publish'' ''publish'' =
      Inr r \<and> status r = Pending"
    by (simp add: mock_env_poll_def mock_env_def)
  have c: "GetOperationResult ''op-publish'' ''publish''
        (Inr \<lparr>status = Completed, data = Some \<lparr>data_assertion = [''@id ex:1'']\<rparr>\<rparr>) \<in>
      set (snd (get_operation_result mock_env ''op-publish'' ''publish'' [])) \<and>
      status \<lparr>status = Completed, data = Some \<lparr>data_assertion = [''@id ex:1'']\<rparr>\<rparr> = Completed"
    by (simp add: mock_poll_completed)
  have f: "GetOperationResult ''op-publish'' ''publish'' (Inr \<lparr>status = Failed, data = None\<rparr>) \<in>
      set (snd (get_operation_result (mock_env_poll Failed) ''op-publish'' ''publish'' [])) \<and>
      status \<lparr>status = Failed, data = None\<rparr> = Failed"
    by (simp add: mock_poll_failed)
  from get_operation_result_retry_policy[of "mock_env_poll Pending" "''op-publish''" "''publish''" "[]"]
    p have 1: "\<exists>r1 r2 r3 r4 r5.
      get_operation_result (mock_env_poll Pending) ''op-publish'' ''publish'' [] =
      (Inl OperationNotFinished,
       [Sleep 1, GetOperationResult ''op-publish'' ''publish'' (Inr r1),
        Sleep 2, GetOperationResult ''op-publish'' ''publish'' (Inr r2),
        Sleep 4, GetOperationResult ''op-publish'' ''publish'' (Inr r3),
        Sleep 8, GetOperationResult ''op-publish'' ''publish'' (Inr r4),
        Sleep 16, GetOperationResult ''op-publish'' ''publish'' (Inr r5)])"
    by blast
  from get_operation_result_retry_policy[of mock_env "''op-publish''" "''publish''" "[]"] c
  have 2: "fst (get_operation_result mock_env ''op-publish'' ''publish'' []) =
     Inr \<lparr>status = Completed, data = Some \<lparr>data_assertion = [''@id ex:1'']\<rparr>\<rparr>"
    by blast
  from get_operation_result_retry_policy[of "mock_env_poll Failed" "''op-publish''" "''publish''" "[]"] f
  have 3: "fst (get_operation_result (mock_env_poll Failed) ''op-publish'' ''publish'' []) =
     Inl (OperationFailed None)"
    by (metis NodeResponseDict.select_convs(2))
  from 1 2 3 show ?thesis by blast
qed

section \<open>Minting and its compensation\<close>

lemma rolled_back_prefix: "rolled_back args msg r es \<Longrightarrow> rolled_back args msg r (pre @ es)"
  unfolding rolled_back_def by (metis append.assoc)

lemma rolled_backI:
  "es = [GetContractAddress ''ServiceAgreementV1'' (Inr sa),
         IncreaseAllowance sa (ca_tokenAmount args) (Inr ()),
         CreateAsset args (Inl (ContractLogicError msg)),
         DecreaseAllowance sa (ca_tokenAmount args) x] \<Longrightarrow>
   r = (case x of Inr _ \<Rightarrow> Inl (ContractLogicError msg) | Inl e \<Rightarrow> Inl e) \<Longrightarrow>
   rolled_back args msg r es"
  unfolding rolled_back_def by blast

lemma emits_create_token_amount:
  "(\<And>a b c d e f x. P (GetBidSuggestion a b c d e f x)) \<Longrightarrow>
   emits P (create_token_amount E L chain_name epochs_number assertions casa token_amount)"
  unfolding create_token_amount_def
  by (cases token_amount) (auto intro!: emits_bnd emits_call emits_pure emits_ret)

lemma emits_create_store_and_publish:
  "(\<And>lst x. P (LocalStore lst x)) \<Longrightarrow> (\<And>a b c d e f x. P (Publish a b c d e f x)) \<Longrightarrow>
   (\<And>ev. is_poll ev \<Longrightarrow> P ev) \<Longrightarrow>
   emits P (create_store_and_publish E L chain_name casa token_id assertions content)"
  unfolding create_store_and_publish_def
  by (intro emits_bnd emits_call emits_pure emits_ret emits_poll) auto

text \<open>
  The lookup of the service-agreement contract, the increase of its allowance, the mint
  and what follows it.
\<close>

lemma mint_rolled_back:
  assumes rest: "\<And>x. emits (\<lambda>ev. ev \<noteq> CreateAsset args (Inl (ContractLogicError msg))) (rest x)"
    and X: "CreateAsset args (Inl (ContractLogicError msg)) \<in>
       set (snd (bnd (call (GetContractAddress ''ServiceAgreementV1'') rq0)
                   (\<lambda>sa. bnd (call (IncreaseAllowance sa t) (rq sa))
                   (\<lambda>_. bnd (create_mint E L sa t ep imm a) rest)) h))"
  shows "rolled_back args msg
      (fst (bnd (call (GetContractAddress ''ServiceAgreementV1'') rq0)
              (\<lambda>sa. bnd (call (IncreaseAllowance sa t) (rq sa))
              (\<lambda>_. bnd (create_mint E L sa t ep imm a) rest)) h))
      (snd (bnd (call (GetContractAddress ''ServiceAgreementV1'') rq0)
              (\<lambda>sa. bnd (call (IncreaseAllowance sa t) (rq sa))
              (\<lambda>_. bnd (create_mint E L sa t ep imm a) rest)) h))"
proof -
  have nr: "\<And>x h'. CreateAsset args (Inl (ContractLogicError msg)) \<notin> set (snd (rest x h'))"
    using rest by (auto simp: emits_def)
  show ?thesis using X
    unfolding create_mint_def Web3_to_bytes_def
    by (auto simp: io_simps create_args_def nr split: sum.splits option.splits exn.splits
        intro: rolled_backI)
qed

lemma mock_create_rejected:
  "create (mock_env_mint (ContractLogicError ''revert'')) mock_lib
     mock_content 2 (Some 100) False JSON_LD [] =
   (Inl (ContractLogicError ''revert''),
    [ChainId (Inr 2043),
     GetAssetStorageAddress ''ContentAssetStorage'' (Inr ''0xStorage''),
     GetContractAddress ''ServiceAgreementV1'' (Inr ''0xAgreementV1''),
     IncreaseAllowance ''0xAgreementV1'' 100 (Inr ()),
     CreateAsset mock_args (Inl (ContractLogicError ''revert'')),
     DecreaseAllowance ''0xAgreementV1'' 100 (Inr ())])"
  by code_simp

text \<open>
  Claim C1. In \<open>create\<close>, if the ledger rejects the mint (\<open>ContractLogicError\<close>), the run
  ends with four events: the lookup of the service-agreement contract, the increase of
  its allowance, the rejected mint, and a decrease of the allowance of that same contract
  by the same token amount, which is the amount of the mint; then the original mint
  failure is raised (if the decrease call fails in turn, its own error is what
  propagates).
\<close>

theorem create_mint_rejected_rolls_back:
  assumes "CreateAsset args (Inl (ContractLogicError msg)) \<in>
     set (snd (create E L content epochs_number token_amount immutable content_type h))"
  shows "\<exists>pre sa x.
     snd (create E L content epochs_number token_amount immutable content_type h) =
       pre @ [GetContractAddress ''ServiceAgreementV1'' (Inr sa),
              IncreaseAllowance sa (ca_tokenAmount args) (Inr ()),
              CreateAsset args (Inl (ContractLogicError msg)),
              DecreaseAllowance sa (ca_tokenAmount args) x] \<and>
     fst (create E L content epochs_number token_amount immutable content_type h) =
       (case x of Inr _ \<Rightarrow> Inl (ContractLogicError msg) | Inl e \<Rightarrow> Inl e)"
proof -
  have "rolled_back args msg
     (fst (create E L content epochs_number token_amount immutable content_type h))
     (snd (create E L content epochs_number token_amount immutable content_type h))"
    using assms unfolding create_def
    apply -
    apply (erule peel[where R="\<lambda>_. True" and Q="rolled_back args msg"])
      apply (rule emits_pure)
     apply (simp add: rolled_back_prefix)
    apply (erule peel[where R="\<lambda>_. True" and Q="rolled_back args msg"])
      apply (rule emits_call, simp)
     apply (simp add: rolled_back_prefix)
    apply (erule peel[where R="\<lambda>_. True" and Q="rolled_back args msg"])
      apply (rule emits_pure)
     apply (simp add: rolled_back_prefix)
    apply (erule peel[where R="\<lambda>_. True" and Q="rolled_back args msg"])
      apply (rule emits_call, simp)
     apply (simp add: rolled_back_prefix)
    apply (erule peel[where R="\<lambda>_. True" and Q="rolled_back args msg"])
      apply (rule emits_create_token_amount, simp)
     apply (simp add: rolled_back_prefix)
    apply (erule mint_rolled_back[rotated])
    apply (intro emits_bnd emits_pure emits_create_store_and_publish)
      apply auto
    done
  then show ?thesis unfolding rolled_back_def .
qed

theorem create_mint_rejected_rolls_back_witness:
  "CreateAsset mock_args (Inl (ContractLogicError ''revert'')) \<in>
     set (snd (create (mock_env_mint (ContractLogicError ''revert'')) mock_lib mock_content 2
                 (Some 100) False JSON_LD [])) \<and>
   (\<exists>pre sa x.
     snd (create (mock_env_mint (ContractLogicError ''revert'')) mock_lib mock_content 2
            (Some 100) False JSON_LD []) =
       pre @ [GetContractAddress ''ServiceAgreementV1'' (Inr sa),
              IncreaseAllowance sa 100 (Inr ()),
              CreateAsset mock_args (Inl (ContractLogicError ''revert'')),
              DecreaseAllowance sa 100 x] \<and>
     fst (create (mock_env_mint (ContractLogicError ''revert'')) mock_lib mock_content 2
            (Some 100) False JSON_LD []) =
       (case x of Inr _ \<Rightarrow> Inl (ContractLogicError ''revert'') | Inl e \<Rightarrow> Inl e))"
proof -
  have h: "CreateAsset mock_args (Inl (ContractLogicError ''revert'')) \<in>
     set (snd (create (mock_env_mint (ContractLogicError ''revert'')) mock_lib mock_content 2
                 (Some 100) False JSON_LD []))"
    by (simp add: mock_create_rejected)
  have t: "ca_tokenAmount mock_args = 100"
    by (simp add: mock_args_def)
  from create_mint_rejected_rolls_back[OF h] h t show ?thesis
    by simp
qed

lemma not_rolled_back_prefix:
  assumes "not_rolled_back args e r es" and "\<forall>ev\<in>set pre. \<not> is_DecreaseAllowance ev"
  shows "not_rolled_back args e r (pre @ es)"
proof -
  from assms(1) obtain p sa where
    es: "es = p @ [GetContractAddress ''ServiceAgreementV1'' (Inr sa),
                   IncreaseAllowance sa (ca_tokenAmount args) (Inr ()),
                   CreateAsset args (Inl e)]"
    and p: "\<forall>ev\<in>set p. \<not> is_DecreaseAllowance ev" and r: "r = Inl e"
    unfolding not_rolled_back_def by blast
  have "pre @ es = (pre @ p) @ [GetContractAddress ''ServiceAgreementV1'' (Inr sa),
                   IncreaseAllowance sa (ca_tokenAmount args) (Inr ()),
                   CreateAsset args (Inl e)]"
    using es by simp
  moreover have "\<forall>ev\<in>set (pre @ p). \<not> is_DecreaseAllowance ev"
    using p assms(2) by auto
  ultimately show ?thesis
    unfolding not_rolled_back_def using r by blast
qed

lemma not_rolled_backI:
  "es = [GetContractAddress ''ServiceAgreementV1'' (Inr sa),
         IncreaseAllowance sa (ca_tokenAmount args) (Inr ()), CreateAsset args (Inl e)] \<Longrightarrow>
   r = Inl e \<Longrightarrow> not_rolled_back args e r es"
  unfolding not_rolled_back_def by (rule exI[where x="[]"]) auto

lemma mint_not_rolled_back:
  assumes rest: "\<And>x. emits (\<lambda>ev. ev \<noteq> CreateAsset args (Inl e)) (rest x)"
    and e: "\<forall>msg. e \<noteq> ContractLogicError msg"
    and X: "CreateAsset args (Inl e) \<in>
       set (snd (bnd (call (GetContractAddress ''ServiceAgreementV1'') rq0)
                   (\<lambda>sa. bnd (call (IncreaseAllowance sa t) (rq sa))
                   (\<lambda>_. bnd (create_mint E L sa t ep imm a) rest)) h))"
  shows "not_rolled_back args e
      (fst (bnd (call (GetContractAddress ''ServiceAgreementV1'') rq0)
              (\<lambda>sa. bnd (call (IncreaseAllowance sa t) (rq sa))
              (\<lambda>_. bnd (create_mint E L sa t ep imm a) rest)) h))
      (snd (bnd (call (GetContractAddress ''ServiceAgreementV1'') rq0)
              (\<lambda>sa. bnd (call (IncreaseAllowance sa t) (rq sa))
              (\<lambda>_. bnd (create_mint E L sa t ep imm a) rest)) h))"
proof -
  have nr: "\<And>x h'. CreateAsset args (Inl e) \<notin> set (snd (rest x h'))"
    using rest by (auto simp: emits_def)
  show ?thesis using X e
    unfolding create_mint_def Web3_to_bytes_def
    by (auto simp: io_simps create_args_def nr split: sum.splits option.splits exn.splits
        intro: not_rolled_backI)
qed

lemma mock_create_other_error:
  "create (mock_env_mint (OtherError ''TimeExhausted'')) mock_lib
     mock_content 2 (Some 100) False JSON_LD [] =
   (Inl (OtherError ''TimeExhausted''),
    [ChainId (Inr 2043),
     GetAssetStorageAddress ''ContentAssetStorage'' (Inr ''0xStorage''),
     GetContractAddress ''ServiceAgreementV1'' (Inr ''0xAgreementV1''),
     IncreaseAllowance ''0xAgreementV1'' 100 (Inr ()),
     CreateAsset mock_args (Inl (OtherError ''TimeExhausted''))])"
  by code_simp

text \<open>A decrease of the allowance comes from the handler of a reverted mint only.\<close>

lemma mint_decrease_after_revert:
  assumes rest: "\<And>u. emits (\<lambda>ev. ev \<noteq> DecreaseAllowance sa' t' x') (rest u)"
    and X: "DecreaseAllowance sa' t' x' \<in>
       set (snd (bnd (create_mint E L sa t ep imm a) rest h))"
  shows "\<exists>args msg. CreateAsset args (Inl (ContractLogicError msg)) \<in>
       set (snd (bnd (create_mint E L sa t ep imm a) rest h))"
proof -
  have nr: "\<And>u h'. DecreaseAllowance sa' t' x' \<notin> set (snd (rest u h'))"
    using rest by (auto simp: emits_def)
  show ?thesis using X
    unfolding create_mint_def Web3_to_bytes_def
    by (auto simp: io_simps nr split: sum.splits option.splits exn.splits)
qed

lemma create_decrease_after_revert:
  assumes "DecreaseAllowance sa t x \<in>
     set (snd (create E L content epochs_number token_amount immutable content_type h))"
  shows "\<exists>args msg. CreateAsset args (Inl (ContractLogicError msg)) \<in>
     set (snd (create E L content epochs_number token_amount immutable content_type h))"
  using assms unfolding create_def
  apply -
  apply (erule peel[where R="\<lambda>_. True"
        and Q="\<lambda>r es. \<exists>args msg. CreateAsset args (Inl (ContractLogicError msg)) \<in> set es"])
    apply (rule emits_pure)
   apply auto[1]
  apply (erule peel[where R="\<lambda>_. True"
        and Q="\<lambda>r es. \<exists>args msg. CreateAsset args (Inl (ContractLogicError msg)) \<in> set es"])
    apply (rule emits_call, simp)
   apply auto[1]
  apply (erule peel[where R="\<lambda>_. True"
        and Q="\<lambda>r es. \<exists>args msg. CreateAsset args (Inl (ContractLogicError msg)) \<in> set es"])
    apply (rule emits_pure)
   apply auto[1]
  apply (erule peel[where R="\<lambda>_. True"
        and Q="\<lambda>r es. \<exists>args msg. CreateAsset args (Inl (ContractLogicError msg)) \<in> set es"])
    apply (rule emits_call, simp)
   apply auto[1]
  apply (erule peel[where R="\<lambda>_. True"
        and Q="\<lambda>r es. \<exists>args msg. CreateAsset args (Inl (ContractLogicError msg)) \<in> set es"])
    apply (rule emits_create_token_amount, simp)
   apply auto[1]
  apply (erule peel[where R="\<lambda>_. True"
        and Q="\<lambda>r es. \<exists>args msg. CreateAsset args (Inl (ContractLogicError msg)) \<in> set es"])
    apply (rule emits_call, simp)
   apply auto[1]
  apply (erule peel[where R="\<lambda>_. True"
        and Q="\<lambda>r es. \<exists>args msg. CreateAsset args (Inl (ContractLogicError msg)) \<in> set es"])
    apply (rule emits_call, simp)
   apply auto[1]
  apply (erule mint_decrease_after_revert[rotated])
  apply (intro emits_bnd emits_pure emits_create_store_and_publish)
    apply auto
  done

text \<open>A mint that fails otherwise ends the run, with no compensation.\<close>

lemma create_other_mint_error:
  assumes "CreateAsset args (Inl e) \<in>
     set (snd (create E L content epochs_number token_amount immutable content_type h))"
    and "\<forall>msg. e \<noteq> ContractLogicError msg"
  shows "fst (create E L content epochs_number token_amount immutable content_type h) = Inl e \<and>
    (\<exists>pre sa.
       snd (create E L content epochs_number token_amount immutable content_type h) =
         pre @ [GetContractAddress ''ServiceAgreementV1'' (Inr sa),
                IncreaseAllowance sa (ca_tokenAmount args) (Inr ()),
                CreateAsset args (Inl e)]) \<and>
    (\<forall>sa t x. DecreaseAllowance sa t x \<notin>
       set (snd (create E L content epochs_number token_amount immutable content_type h)))"
proof -
  have "not_rolled_back args e
     (fst (create E L content epochs_number token_amount immutable content_type h))
     (snd (create E L content epochs_number token_amount immutable content_type h))"
    using assms(1) unfolding create_def
    apply -
    apply (erule peel[where R="\<lambda>ev. \<not> is_DecreaseAllowance ev" and Q="not_rolled_back args e"])
      apply (rule emits_pure)
     apply (simp add: not_rolled_back_prefix)
    apply (erule peel[where R="\<lambda>ev. \<not> is_DecreaseAllowance ev" and Q="not_rolled_back args e"])
      apply (rule emits_call, simp)
     apply (simp add: not_rolled_back_prefix)
    apply (erule peel[where R="\<lambda>ev. \<not> is_DecreaseAllowance ev" and Q="not_rolled_back args e"])
      apply (rule emits_pure)
     apply (simp add: not_rolled_back_prefix)
    apply (erule peel[where R="\<lambda>ev. \<not> is_DecreaseAllowance ev" and Q="not_rolled_back args e"])
      apply (rule emits_call, simp)
     apply (simp add: not_rolled_back_prefix)
    apply (erule peel[where R="\<lambda>ev. \<not> is_DecreaseAllowance ev" and Q="not_rolled_back args e"])
      apply (rule emits_create_token_amount, simp)
     apply (simp add: not_rolled_back_prefix)
    apply (erule mint_not_rolled_back[rotated 2])
    apply (intro emits_bnd emits_pure emits_create_store_and_publish)
      apply (auto simp: assms(2))
    done
  then show ?thesis unfolding not_rolled_back_def by fastforce
qed

text \<open>
  Claim C9. In \<open>create\<close>, the compensating decrease is made only when the mint call raises
  \<open>ContractLogicError\<close>: in every run, a decrease of the allowance in the trace means that
  the trace holds a mint that raised \<open>ContractLogicError\<close> (so there is none after a mint
  that returned, nor without a mint). When the mint call raises any other exception, that
  exception propagates to the caller, the mint is the last event of the run, and the run
  contains the allowance increase but no allowance decrease.
\<close>

theorem create_other_mint_error_no_rollback:
  "(\<forall>sa t x.
      DecreaseAllowance sa t x \<in>
        set (snd (create E L content epochs_number token_amount immutable content_type h)) \<longrightarrow>
      (\<exists>args msg. CreateAsset args (Inl (ContractLogicError msg)) \<in>
        set (snd (create E L content epochs_number token_amount immutable content_type h)))) \<and>
   (\<forall>args e.
      CreateAsset args (Inl e) \<in>
        set (snd (create E L content epochs_number token_amount immutable content_type h)) \<and>
      (\<forall>msg. e \<noteq> ContractLogicError msg) \<longrightarrow>
      fst (create E L content epochs_number token_amount immutable content_type h) = Inl e \<and>
      (\<exists>pre sa.
         snd (create E L content epochs_number token_amount immutable content_type h) =
           pre @ [GetContractAddress ''ServiceAgreementV1'' (Inr sa),
                  IncreaseAllowance sa (ca_tokenAmount args) (Inr ()),
                  CreateAsset args (Inl e)]) \<and>
      (\<forall>sa t x. DecreaseAllowance sa t x \<notin>
         set (snd (create E L content epochs_number token_amount immutable content_type h))))"
proof (intro conjI allI impI)
  fix sa t x
  assume "DecreaseAllowance sa t x \<in>
    set (snd (create E L content epochs_number token_amount immutable content_type h))"
  then show "\<exists>args msg. CreateAsset args (Inl (ContractLogicError msg)) \<in>
    set (snd (create E L content epochs_number token_amount immutable content_type h))"
    by (rule create_decrease_after_revert)
next
  fix args e
  assume a: "CreateAsset args (Inl e) \<in>
      set (snd (create E L content epochs_number token_amount immutable content_type h)) \<and>
    (\<forall>msg. e \<noteq> ContractLogicError msg)"
  then have m: "CreateAsset args (Inl e) \<in>
      set (snd (create E L content epochs_number token_amount immutable content_type h))"
    and e: "\<forall>msg. e \<noteq> ContractLogicError msg"
    by simp_all
  from create_other_mint_error[OF m e]
  show "fst (create E L content epochs_number token_amount immutable content_type h) = Inl e"
    and "\<exists>pre sa.
         snd (create E L content epochs_number token_amount immutable content_type h) =
           pre @ [GetContractAddress ''ServiceAgreementV1'' (Inr sa),
                  IncreaseAllowance sa (ca_tokenAmount args) (Inr ()),
                  CreateAsset args (Inl e)]"
    and "\<And>sa t x. DecreaseAllowance sa t x \<notin>
         set (snd (create E L content epochs_number token_amount immutable content_type h))"
    by blast+
qed

theorem create_other_mint_error_no_rollback_witness:
  "DecreaseAllowance ''0xAgreementV1'' 100 (Inr ()) \<in>
     set (snd (create (mock_env_mint (ContractLogicError ''revert'')) mock_lib mock_content 2
                 (Some 100) False JSON_LD [])) \<and>
   (\<exists>args msg. CreateAsset args (Inl (ContractLogicError msg)) \<in>
     set (snd (create (mock_env_mint (ContractLogicError ''revert'')) mock_lib mock_content 2
                 (Some 100) False JSON_LD []))) \<and>
   CreateAsset mock_args (Inl (OtherError ''TimeExhausted'')) \<in>
     set (snd (create (mock_env_mint (OtherError ''TimeExhausted'')) mock_lib mock_content 2
                 (Some 100) False JSON_LD [])) \<and>
   (\<forall>msg. OtherError ''TimeExhausted'' \<noteq> ContractLogicError msg) \<and>
   fst (create (mock_env_mint (OtherError ''TimeExhausted'')) mock_lib mock_content 2
          (Some 100) False JSON_LD []) = Inl (OtherError ''TimeExhausted'') \<and>
   (\<forall>sa t x. DecreaseAllowance sa t x \<notin>
      set (snd (create (mock_env_mint (OtherError ''TimeExhausted'')) mock_lib mock_content 2
                  (Some 100) False JSON_LD [])))"
proof -
  have d: "DecreaseAllowance ''0xAgreementV1'' 100 (Inr ()) \<in>
     set (snd (create (mock_env_mint (ContractLogicError ''revert'')) mock_lib mock_content 2
                 (Some 100) False JSON_LD []))"
    by (simp add: mock_create_rejected)
  have h: "CreateAsset mock_args (Inl (OtherError ''TimeExhausted'')) \<in>
     set (snd (create (mock_env_mint (OtherError ''TimeExhausted'')) mock_lib mock_content 2
                 (Some 100) False JSON_LD []))"
    by (simp add: mock_create_other_error)
  have e: "\<forall>msg. OtherError ''TimeExhausted'' \<noteq> ContractLogicError msg"
    by simp
  from create_other_mint_error_no_rollback[of "mock_env_mint (ContractLogicError ''revert'')"
      mock_lib mock_content 2 "Some 100" False JSON_LD "[]"] d
  have 1: "\<exists>args msg. CreateAsset args (Inl (ContractLogicError msg)) \<in>
     set (snd (create (mock_env_mint (ContractLogicError ''revert'')) mock_lib mock_content 2
                 (Some 100) False JSON_LD []))"
    by blast
  from create_other_mint_error_no_rollback[of "mock_env_mint (OtherError ''TimeExhausted'')"
      mock_lib mock_content 2 "Some 100" False JSON_LD "[]"] h e
  have 2: "fst (create (mock_env_mint (OtherError ''TimeExhausted'')) mock_lib mock_content 2
          (Some 100) False JSON_LD []) = Inl (OtherError ''TimeExhausted'') \<and>
   (\<forall>sa t x. DecreaseAllowance sa t x \<notin>
      set (snd (create (mock_env_mint (OtherError ''TimeExhausted'')) mock_lib mock_content 2
                  (Some 100) False JSON_LD [])))"
    by blast
  from d 1 h e 2 show ?thesis by blast
qed

section \<open>A token amount supplied by the caller\<close>

lemma emits_bnd_ret: "emits P (f x) \<Longrightarrow> emits P (bnd (ret x) f)"
  by (auto simp: emits_def snd_bnd fst_ret snd_ret)

lemma emits_create_mint:
  "(\<And>b x. P (CreateAsset (create_args a b t ep imm) x)) \<Longrightarrow> (\<And>x. P (DecreaseAllowance sa t x)) \<Longrightarrow>
   emits P (create_mint E L sa t ep imm a)"
  unfolding create_mint_def
  by (intro emits_try_except emits_bnd emits_pure emits_call)
     (auto split: exn.splits intro!: emits_bnd emits_call emits_throw)

lemma emits_update_store_and_update:
  "(\<And>lst x. P (LocalStore lst x)) \<Longrightarrow> (\<And>a b c d e f x. P (Update a b c d e f x)) \<Longrightarrow>
   (\<And>ev. is_poll ev \<Longrightarrow> P ev) \<Longrightarrow>
   emits P (update_store_and_update E L chain_name casa token_id assertions content)"
  unfolding update_store_and_update_def
  by (intro emits_bnd emits_call emits_pure emits_ret emits_poll) auto

lemma emits_update_token_amount:
  "(\<And>a b c d e f x. P (GetBidSuggestion a b c d e f x)) \<Longrightarrow>
   (\<And>a b x. P (GetAssertionIdByIndex a b x)) \<Longrightarrow>
   (\<And>a x. P (GetServiceAgreementData a x)) \<Longrightarrow>
   (\<And>a x. P (GetBlock a x)) \<Longrightarrow>
   emits P (update_token_amount E L chain_name casa token_id assertions token_amount)"
  unfolding update_token_amount_def get_agreement_id_def
  by (cases token_amount) (auto intro!: emits_bnd emits_call emits_pure emits_ret)

lemma create_supplied: "emits (create_uses_amount t) (create E L content ep (Some t) imm ty)"
  unfolding create_def create_token_amount_def option.case
  by (intro emits_bnd_ret emits_bnd emits_pure emits_call emits_create_mint
      emits_create_store_and_publish)
     (auto simp: create_args_def elim: is_poll.elims)

lemma update_supplied: "emits (update_uses_amount t) (update E L ual content (Some t) ty)"
  unfolding update_def update_token_amount_def option.case
  by (intro emits_bnd_ret emits_bnd emits_pure emits_call emits_update_store_and_update)
     (auto simp: update_args_def elim: is_poll.elims)

lemma mock_create_supplied:
  "create mock_env mock_lib mock_content 2 (Some 100) False JSON_LD [] =
   (Inr \<lparr>r_UAL = ''otp:0xStorage:7'', r_publicAssertionId = ''0x@id ex:1'',
         r_operationId = ''op-publish'', r_status = Completed\<rparr>,
    [ChainId (Inr 2043),
     GetAssetStorageAddress ''ContentAssetStorage'' (Inr ''0xStorage''),
     GetContractAddress ''ServiceAgreementV1'' (Inr ''0xAgreementV1''),
     IncreaseAllowance ''0xAgreementV1'' 100 (Inr ()),
     CreateAsset mock_args (Inr (Receipt ''0xTx'')),
     LocalStore
      [\<lparr>se_blockchain = ''otp'', se_contract = ''0xStorage'', se_tokenId = 7,
        se_assertionId = ''0x@id ex:1'', se_assertion = [''@id ex:1''],
        se_storeType = ''Triple''\<rparr>]
      (Inr \<lparr>operationId = ''op-store''\<rparr>),
     Sleep 1,
     GetOperationResult ''op-store'' ''local-store''
      (Inr \<lparr>status = Completed, data = Some \<lparr>data_assertion = [''@id ex:1'']\<rparr>\<rparr>),
     Publish ''0x@id ex:1'' [''@id ex:1''] ''otp'' ''0xStorage'' 7 1
      (Inr \<lparr>operationId = ''op-publish''\<rparr>),
     Sleep 1,
     GetOperationResult ''op-publish'' ''publish''
      (Inr \<lparr>status = Completed, data = Some \<lparr>data_assertion = [''@id ex:1'']\<rparr>\<rparr>)])"
  by code_simp

lemma mock_update_supplied:
  "update mock_env mock_lib ''otp:0xStorage:7'' mock_content (Some 40) JSON_LD [] =
   (Inr \<lparr>r_UAL = ''otp:0xStorage:7'', r_publicAssertionId = ''0x@id ex:1'',
         r_operationId = ''op-update'', r_status = Completed\<rparr>,
    [ChainId (Inr 2043),
     UpdateAssetState
      \<lparr>ua_token_id = 7, ua_assertion_id = ''0x@id ex:1'', ua_size = 8,
        ua_triples_number = 1, ua_chunks_number = 1, ua_update_token_amount = 40\<rparr>
      (Inr ()),
     LocalStore
      [\<lparr>se_blockchain = ''otp'', se_contract = ''0xStorage'', se_tokenId = 7,
        se_assertionId = ''0x@id ex:1'', se_assertion = [''@id ex:1''],
        se_storeType = ''Pending''\<rparr>]
      (Inr \<lparr>operationId = ''op-store''\<rparr>),
     Sleep 1,
     GetOperationResult ''op-store'' ''local-store''
      (Inr \<lparr>status = Completed, data = Some \<lparr>data_assertion = [''@id ex:1'']\<rparr>\<rparr>),
     Update ''0x@id ex:1'' [''@id ex:1''] ''otp'' ''0xStorage'' 7 1
      (Inr \<lparr>operationId = ''op-update''\<rparr>),
     Sleep 1,
     GetOperationResult ''op-update'' ''update''
      (Inr \<lparr>status = Completed, data = Some \<lparr>data_assertion = [''@id ex:1'']\<rparr>\<rparr>)])"
  by code_simp

text \<open>
  Claim C10. When the caller supplies the token amount, \<open>create\<close> and \<open>update\<close> issue no
  bid suggestion query, \<open>update\<close> looks up neither the agreement nor the latest block, and
  the supplied amount is the one of the allowance increase and of the ledger write
  (the mint in \<open>create\<close>, the asset state update in \<open>update\<close>).
\<close>

theorem supplied_token_amount_used_unchanged:
  "(\<forall>ev \<in> set (snd (create E L content epochs_number (Some t) immutable content_type h)).
      create_uses_amount t ev) \<and>
   (\<forall>ev \<in> set (snd (update E L ual content (Some t) content_type h)).
      update_uses_amount t ev)"
  using create_supplied[of t E L content epochs_number immutable content_type]
    update_supplied[of t E L ual content content_type]
  by (simp add: emits_def)

theorem supplied_token_amount_used_unchanged_witness:
  "IncreaseAllowance ''0xAgreementV1'' 100 (Inr ()) \<in>
     set (snd (create mock_env mock_lib mock_content 2 (Some 100) False JSON_LD [])) \<and>
   create_uses_amount 100 (IncreaseAllowance ''0xAgreementV1'' 100 (Inr ())) \<and>
   CreateAsset mock_args (Inr (Receipt ''0xTx'')) \<in>
     set (snd (create mock_env mock_lib mock_content 2 (Some 100) False JSON_LD [])) \<and>
   create_uses_amount 100 (CreateAsset mock_args (Inr (Receipt ''0xTx''))) \<and>
   UpdateAssetState
      \<lparr>ua_token_id = 7, ua_assertion_id = ''0x@id ex:1'', ua_size = 8,
        ua_triples_number = 1, ua_chunks_number = 1, ua_update_token_amount = 40\<rparr>
      (Inr ()) \<in>
     set (snd (update mock_env mock_lib ''otp:0xStorage:7'' mock_content (Some 40) JSON_LD [])) \<and>
   update_uses_amount 40
     (UpdateAssetState
        \<lparr>ua_token_id = 7, ua_assertion_id = ''0x@id ex:1'', ua_size = 8,
          ua_triples_number = 1, ua_chunks_number = 1, ua_update_token_amount = 40\<rparr>
        (Inr ()))"
proof -
  have i: "IncreaseAllowance ''0xAgreementV1'' 100 (Inr ()) \<in>
     set (snd (create mock_env mock_lib mock_content 2 (Some 100) False JSON_LD []))"
    and c: "CreateAsset mock_args (Inr (Receipt ''0xTx'')) \<in>
     set (snd (create mock_env mock_lib mock_content 2 (Some 100) False JSON_LD []))"
    by (simp_all add: mock_create_supplied)
  have u: "UpdateAssetState
      \<lparr>ua_token_id = 7, ua_assertion_id = ''0x@id ex:1'', ua_size = 8,
        ua_triples_number = 1, ua_chunks_number = 1, ua_update_token_amount = 40\<rparr>
      (Inr ()) \<in>
     set (snd (update mock_env mock_lib ''otp:0xStorage:7'' mock_content (Some 40) JSON_LD []))"
    by (simp add: mock_update_supplied)
  from supplied_token_amount_used_unchanged[of mock_env mock_lib mock_content 2 100 False
      JSON_LD "[]" "''otp:0xStorage:7''"]
    supplied_token_amount_used_unchanged[of mock_env mock_lib mock_content 2 40 False
      JSON_LD "[]" "''otp:0xStorage:7''"] i c u
  show ?thesis by blast
qed

section \<open>The store type of the local store\<close>

lemma process_content_private_iff:
  "process_content L content ty = Inr a \<Longrightarrow>
   (private' a \<noteq> None) = has_part (private_part content)"
  unfolding process_content_def and_then_def has_part_def Let_def
  by (auto split: option.splits sum.splits if_splits)

lemma assertions_list_tagged:
  "process_content L content ty = Inr a \<Longrightarrow>
   assertions_list chain casa tid a content st = Inr lst \<Longrightarrow>
   local_store_tagged (StoreTypes_value st) a (LocalStore lst x)"
  using process_content_private_iff[of L content ty a]
  unfolding assertions_list_def Let_def
  by (auto split: option.splits if_splits)

lemma create_store_tagged:
  assumes "process_content L content ty = Inr a"
  shows "emits (local_store_tagged ''Triple'' a) (create_store_and_publish E L chain casa tid a content)"
  unfolding create_store_and_publish_def
  apply (rule emits_bnd_pure)
  apply (intro emits_bnd emits_call emits_pure emits_ret emits_poll)
  using assertions_list_tagged[OF assms, where st=TRIPLE]
    apply (auto elim: is_poll.elims)
  done

lemma update_store_tagged:
  assumes "process_content L content ty = Inr a"
  shows "emits (local_store_tagged ''Pending'' a) (update_store_and_update E L chain casa tid a content)"
  unfolding update_store_and_update_def
  apply (rule emits_bnd_pure)
  apply (intro emits_bnd emits_call emits_pure emits_ret emits_poll)
  using assertions_list_tagged[OF assms, where st=PENDING]
    apply (auto elim: is_poll.elims)
  done

lemma create_tagged:
  assumes "process_content L content ty = Inr a"
  shows "emits (local_store_tagged ''Triple'' a) (create E L content ep ta imm ty)"
  unfolding create_def
  apply (rule emits_bnd_pure)
  apply (simp add: assms)
  apply (intro emits_bnd emits_pure emits_call emits_create_mint emits_create_token_amount
      create_store_tagged[OF assms])
        apply auto
  done

lemma update_tagged:
  assumes "process_content L content ty = Inr a"
  shows "emits (local_store_tagged ''Pending'' a) (update E L ual content ta ty)"
  unfolding update_def
  apply (rule emits_bnd, rule emits_pure)
  apply (rule emits_bnd_pure)
  apply (simp add: assms)
  apply (intro emits_bnd emits_pure emits_call emits_update_token_amount
      update_store_tagged[OF assms])
        apply auto
  done

lemma mock_process_private:
  "process_content mock_lib mock_private_content JSON_LD = Inr mock_private_assertions"
  by code_simp

lemma mock_create_private:
  "LocalStore (mock_store_entries ''Triple'') (Inr \<lparr>operationId = ''op-store''\<rparr>) \<in>
     set (snd (create mock_env mock_lib mock_private_content 2 None False JSON_LD []))"
  by code_simp

lemma mock_update_private:
  "LocalStore (mock_store_entries ''Pending'') (Inr \<lparr>operationId = ''op-store''\<rparr>) \<in>
     set (snd (update mock_env mock_lib ''otp:0xStorage:7'' mock_private_content None JSON_LD []))"
  by code_simp

text \<open>
  Claim C8. Every LocalStore request of \<open>create\<close> tags each of its assertions with the
  store type "Triple", every LocalStore request of \<open>update\<close> with "Pending"; in both the
  list is the public assertion followed by the private assertion, the latter present
  exactly when the content has a (truthy) private part.
\<close>

theorem local_store_store_types:
  assumes "process_content L content content_type = Inr a"
  shows "(\<forall>ev \<in> set (snd (create E L content epochs_number token_amount immutable content_type h)).
      local_store_tagged ''Triple'' a ev) \<and>
   (\<forall>ev \<in> set (snd (update E L ual content token_amount content_type h)).
      local_store_tagged ''Pending'' a ev) \<and>
   (private' a \<noteq> None) = has_part (private_part content)"
  using create_tagged[OF assms, of E epochs_number token_amount immutable]
    update_tagged[OF assms, of E ual token_amount] process_content_private_iff[OF assms]
  by (simp add: emits_def)

theorem local_store_store_types_witness:
  "process_content mock_lib mock_private_content JSON_LD = Inr mock_private_assertions \<and>
   LocalStore (mock_store_entries ''Triple'') (Inr \<lparr>operationId = ''op-store''\<rparr>) \<in>
     set (snd (create mock_env mock_lib mock_private_content 2 None False JSON_LD [])) \<and>
   local_store_tagged ''Triple'' mock_private_assertions
     (LocalStore (mock_store_entries ''Triple'') (Inr \<lparr>operationId = ''op-store''\<rparr>)) \<and>
   LocalStore (mock_store_entries ''Pending'') (Inr \<lparr>operationId = ''op-store''\<rparr>) \<in>
     set (snd (update mock_env mock_lib ''otp:0xStorage:7'' mock_private_content None JSON_LD [])) \<and>
   local_store_tagged ''Pending'' mock_private_assertions
     (LocalStore (mock_store_entries ''Pending'') (Inr \<lparr>operationId = ''op-store''\<rparr>)) \<and>
   has_part (private_part mock_private_content)"
  using local_store_store_types[OF mock_process_private, of mock_env 2 None False "[]"
      "''otp:0xStorage:7''"]
    mock_process_private mock_create_private mock_update_private
  by (auto simp: mock_private_assertions_def)

section \<open>The token amount of an update\<close>

text \<open>
  \<open>math.floor(a / b)\<close>, where it returns: the divisor is not zero, and below \<open>2 ^ 53\<close> the
  result is the floor of the exact quotient, Python's \<open>a // b\<close>.
\<close>

lemma floor_truediv_exact:
  assumes "floor_truediv L a b = Inr ce"
  shows "b \<noteq> 0" and "\<bar>a\<bar> < 2 ^ 53 \<and> \<bar>b\<bar> < 2 ^ 53 \<longrightarrow> ce = a div b"
  using assms by (auto simp: floor_truediv_def split: if_splits)

lemma floor_truediv_zero: "floor_truediv L a 0 = Inl ZeroDivisionError"
  by (simp add: floor_truediv_def)

lemma amount_derived_prefix:
  "amount_derived L args x es \<Longrightarrow> amount_derived L args x (pre @ es)"
  unfolding amount_derived_def
  apply (elim exE conjE)
  subgoal for prea
    apply (rule exI[where x="pre @ prea"])
    apply (simp only: append_assoc)
    apply blast
    done
  done

lemma update_token_amount_None:
  assumes "fst (update_token_amount E L chain casa tid a None h) = Inr t"
  shows "\<exists>first aid ad blk ce resp bid esc rest.
     snd (update_token_amount E L chain casa tid a None h) =
       [GetAssertionIdByIndex tid 0 (Inr first),
        GetServiceAgreementData aid (Inr ad),
        GetBlock ''latest'' (Inr blk),
        GetBidSuggestion chain (epochsNumber ad - ce) (size' (metadata (public' a))) casa
          (id' (public' a)) HASH_FUNCTION_ID (Inr resp)] \<and>
     floor_truediv L (block_timestamp blk - startTime ad) (epochLength ad) = Inr ce \<and>
     py_int L (bidSuggestion resp) = Inr bid \<and>
     tokensInfo ad = esc # rest \<and>
     t = max 0 (bid - esc)"
  using assms
  unfolding update_token_amount_def get_agreement_id_def option.case
  by (auto simp: io_simps getitem0_def max_def split: sum.splits list.splits)

lemma update_amount_derived:
  assumes rest: "\<And>u. emits (\<lambda>ev. ev \<noteq> UpdateAssetState args x) (rest u)"
    and X: "UpdateAssetState args x \<in>
       set (snd (bnd (update_token_amount E L chain casa tid a None)
                   (\<lambda>t. bnd (call (UpdateAssetState (update_args tid a t)) (rq t)) rest) h))"
  shows "amount_derived L args x
       (snd (bnd (update_token_amount E L chain casa tid a None)
                   (\<lambda>t. bnd (call (UpdateAssetState (update_args tid a t)) (rq t)) rest) h))"
proof -
  let ?B = "update_token_amount E L chain casa tid a None"
  have nB: "UpdateAssetState args x \<notin> set (snd (?B h))"
    using emits_update_token_amount[of "\<lambda>ev. ev \<noteq> UpdateAssetState args x" E L chain casa tid a None]
    by (auto simp: emits_def)
  have nr: "\<And>u h'. UpdateAssetState args x \<notin> set (snd (rest u h'))"
    using rest by (auto simp: emits_def)
  show ?thesis
  proof (cases "fst (?B h)")
    case (Inl e)
    with X nB show ?thesis by (simp add: snd_bnd)
  next
    case (Inr t)
    from update_token_amount_None[OF Inr] obtain first aid ad blk ce resp bid esc rs where
      es: "snd (?B h) =
       [GetAssertionIdByIndex tid 0 (Inr first),
        GetServiceAgreementData aid (Inr ad),
        GetBlock ''latest'' (Inr blk),
        GetBidSuggestion chain (epochsNumber ad - ce) (size' (metadata (public' a))) casa
          (id' (public' a)) HASH_FUNCTION_ID (Inr resp)]"
      and fl: "floor_truediv L (block_timestamp blk - startTime ad) (epochLength ad) = Inr ce"
      and pi: "py_int L (bidSuggestion resp) = Inr bid"
      and ti: "tokensInfo ad = esc # rs"
      and t: "t = max 0 (bid - esc)"
      by blast
    let ?h' = "h @ snd (?B h)"
    let ?C = "bnd (call (UpdateAssetState (update_args tid a t)) (rq t)) rest"
    from X Inr nB have XC: "UpdateAssetState args x \<in> set (snd (?C ?h'))"
      by (simp add: snd_bnd)
    then have eq: "UpdateAssetState args x = UpdateAssetState (update_args tid a t) (rq t ?h')"
      using nr by (auto simp: io_simps split: sum.splits)
    then have args: "args = update_args tid a t" and x: "x = rq t ?h'" by simp_all
    have "\<exists>post. snd (?C ?h') = UpdateAssetState args x # post"
      unfolding args x by (cases "rq t ?h'") (simp_all add: io_simps)
    then obtain post where C: "snd (?C ?h') = UpdateAssetState args x # post" ..
    have whole: "snd (bnd ?B (\<lambda>t. bnd (call (UpdateAssetState (update_args tid a t)) (rq t)) rest) h) =
        snd (?B h) @ UpdateAssetState args x # post"
      using Inr C by (simp add: snd_bnd)
    have tid: "ua_token_id args = tid" and amt: "ua_update_token_amount args = t"
      using args by (simp_all add: update_args_def)
    show ?thesis
      unfolding amount_derived_def whole es
      apply (rule exI[where x="[]"])
      apply (rule exI[where x=post])
      using fl floor_truediv_exact[OF fl] pi ti t tid amt
      apply auto
      done
  qed
qed

lemma mock_update_estimated:
  "UpdateAssetState mock_update_args (Inr ()) \<in>
     set (snd (update mock_env mock_lib ''otp:0xStorage:7'' mock_content None JSON_LD []))"
  by code_simp

text \<open>
  Claim C3. When \<open>update\<close> is called without a token amount, the amount of its ledger
  write is never negative: it is the bid suggestion, asked for
  \<open>epochsNumber - floor((now - startTime) / epochLength)\<close> epochs, less the already
  escrowed \<open>tokensInfo[0]\<close>, floored at zero, where the agreement data and the timestamp
  \<open>now\<close> are the answers of the ledger in the same run. The epoch length is not zero
  (the division would raise), and the current epoch \<open>ce\<close> is the floor of the exact
  quotient, \<open>(now - startTime) div epochLength\<close>, whenever both operands are below
  \<open>2 ^ 53\<close> in magnitude, where Python's floating-point division is exact enough.
\<close>

theorem update_token_amount_floored:
  assumes "UpdateAssetState args x \<in> set (snd (update E L ual content None content_type h))"
  shows "0 \<le> ua_update_token_amount args \<and>
    (\<exists>pre post first aid ad blk ce chain sz casa pid resp bid esc rest.
       snd (update E L ual content None content_type h) = pre @
         [GetAssertionIdByIndex (ua_token_id args) 0 (Inr first),
          GetServiceAgreementData aid (Inr ad),
          GetBlock ''latest'' (Inr blk),
          GetBidSuggestion chain (epochsNumber ad - ce) sz casa pid HASH_FUNCTION_ID (Inr resp),
          UpdateAssetState args x] @ post \<and>
       floor_truediv L (block_timestamp blk - startTime ad) (epochLength ad) = Inr ce \<and>
       epochLength ad \<noteq> 0 \<and>
       (\<bar>block_timestamp blk - startTime ad\<bar> < 2 ^ 53 \<and> \<bar>epochLength ad\<bar> < 2 ^ 53 \<longrightarrow>
          ce = (block_timestamp blk - startTime ad) div epochLength ad) \<and>
       py_int L (bidSuggestion resp) = Inr bid \<and>
       tokensInfo ad = esc # rest \<and>
       ua_update_token_amount args = max 0 (bid - esc))"
proof -
  have d: "amount_derived L args x (snd (update E L ual content None content_type h))"
    using assms unfolding update_def
    apply -
    apply (erule peel[where R="\<lambda>_. True" and Q="\<lambda>r. amount_derived L args x"])
      apply (rule emits_pure)
     apply (simp add: amount_derived_prefix)
    apply (erule peel[where R="\<lambda>_. True" and Q="\<lambda>r. amount_derived L args x"])
      apply (rule emits_pure)
     apply (simp add: amount_derived_prefix)
    apply (erule peel[where R="\<lambda>_. True" and Q="\<lambda>r. amount_derived L args x"])
      apply (rule emits_call, simp)
     apply (simp add: amount_derived_prefix)
    apply (erule peel[where R="\<lambda>_. True" and Q="\<lambda>r. amount_derived L args x"])
      apply (rule emits_pure)
     apply (simp add: amount_derived_prefix)
    apply (erule update_amount_derived[rotated])
    apply (rule emits_update_store_and_update)
      apply (auto elim: is_poll.elims)
    done
  then have "0 \<le> ua_update_token_amount args"
    unfolding amount_derived_def by auto
  with d show ?thesis unfolding amount_derived_def by blast
qed

lemma mock_update_estimated_run:
  "snd (update mock_env mock_lib ''otp:0xStorage:7'' mock_content None JSON_LD []) =
    [ChainId (Inr 2043),
     GetAssertionIdByIndex 7 0 (Inr [1, 2, 3]),
     GetServiceAgreementData ''0xAgreement''
      (Inr \<lparr>startTime = 400, epochsNumber = 5, epochLength = 300, tokensInfo = [250, 0]\<rparr>),
     GetBlock ''latest'' (Inr \<lparr>block_timestamp = 1000\<rparr>),
     GetBidSuggestion ''otp'' 3 8 ''0xStorage'' ''0x@id ex:1'' 1
      (Inr \<lparr>bidSuggestion = ''100''\<rparr>),
     UpdateAssetState mock_update_args (Inr ()),
     LocalStore
      [\<lparr>se_blockchain = ''otp'', se_contract = ''0xStorage'', se_tokenId = 7,
        se_assertionId = ''0x@id ex:1'', se_assertion = [''@id ex:1''],
        se_storeType = ''Pending''\<rparr>]
      (Inr \<lparr>operationId = ''op-store''\<rparr>),
     Sleep 1,
     GetOperationResult ''op-store'' ''local-store''
      (Inr \<lparr>status = Completed, data = Some \<lparr>data_assertion = [''@id ex:1'']\<rparr>\<rparr>),
     Update ''0x@id ex:1'' [''@id ex:1''] ''otp'' ''0xStorage'' 7 1
      (Inr \<lparr>operationId = ''op-update''\<rparr>),
     Sleep 1,
     GetOperationResult ''op-update'' ''update''
      (Inr \<lparr>status = Completed, data = Some \<lparr>data_assertion = [''@id ex:1'']\<rparr>\<rparr>)]"
  by code_simp

theorem update_token_amount_floored_witness:
  "UpdateAssetState mock_update_args (Inr ()) \<in>
     set (snd (update mock_env mock_lib ''otp:0xStorage:7'' mock_content None JSON_LD [])) \<and>
   0 \<le> ua_update_token_amount mock_update_args \<and>
   (\<exists>pre post first aid ad blk ce chain sz casa pid resp bid esc rest.
       snd (update mock_env mock_lib ''otp:0xStorage:7'' mock_content None JSON_LD []) = pre @
         [GetAssertionIdByIndex (ua_token_id mock_update_args) 0 (Inr first),
          GetServiceAgreementData aid (Inr ad),
          GetBlock ''latest'' (Inr blk),
          GetBidSuggestion chain (epochsNumber ad - ce) sz casa pid HASH_FUNCTION_ID (Inr resp),
          UpdateAssetState mock_update_args (Inr ())] @ post \<and>
       ad = \<lparr>startTime = 400, epochsNumber = 5, epochLength = 300, tokensInfo = [250, 0]\<rparr> \<and>
       blk = \<lparr>block_timestamp = 1000\<rparr> \<and>
       floor_truediv mock_lib (block_timestamp blk - startTime ad) (epochLength ad) = Inr ce \<and>
       epochLength ad \<noteq> 0 \<and>
       ce = (block_timestamp blk - startTime ad) div epochLength ad \<and>
       ce = 2 \<and>
       py_int mock_lib (bidSuggestion resp) = Inr bid \<and>
       tokensInfo ad = esc # rest \<and>
       ua_update_token_amount mock_update_args = max 0 (bid - esc))"
proof -
  from update_token_amount_floored[OF mock_update_estimated]
  obtain pre post first aid ad blk ce chain sz casa pid resp bid esc rest where
    nn: "0 \<le> ua_update_token_amount mock_update_args"
    and tr: "snd (update mock_env mock_lib ''otp:0xStorage:7'' mock_content None JSON_LD []) =
       pre @
         [GetAssertionIdByIndex (ua_token_id mock_update_args) 0 (Inr first),
          GetServiceAgreementData aid (Inr ad),
          GetBlock ''latest'' (Inr blk),
          GetBidSuggestion chain (epochsNumber ad - ce) sz casa pid HASH_FUNCTION_ID (Inr resp),
          UpdateAssetState mock_update_args (Inr ())] @ post"
    and fl: "floor_truediv mock_lib (block_timestamp blk - startTime ad) (epochLength ad) = Inr ce"
    and ne: "epochLength ad \<noteq> 0"
    and ex: "\<bar>block_timestamp blk - startTime ad\<bar> < 2 ^ 53 \<and> \<bar>epochLength ad\<bar> < 2 ^ 53 \<longrightarrow>
          ce = (block_timestamp blk - startTime ad) div epochLength ad"
    and pi: "py_int mock_lib (bidSuggestion resp) = Inr bid"
    and ti: "tokensInfo ad = esc # rest"
    and amt: "ua_update_token_amount mock_update_args = max 0 (bid - esc)"
    by blast
  have "GetServiceAgreementData aid (Inr ad) \<in>
      set (snd (update mock_env mock_lib ''otp:0xStorage:7'' mock_content None JSON_LD []))"
    and "GetBlock ''latest'' (Inr blk) \<in>
      set (snd (update mock_env mock_lib ''otp:0xStorage:7'' mock_content None JSON_LD []))"
    by (subst tr, simp)+
  then have ad: "ad = \<lparr>startTime = 400, epochsNumber = 5, epochLength = 300, tokensInfo = [250, 0]\<rparr>"
    and blk: "blk = \<lparr>block_timestamp = 1000\<rparr>"
    by (simp_all add: mock_update_estimated_run)
  from ex have ce: "ce = (block_timestamp blk - startTime ad) div epochLength ad"
    by (simp add: ad blk)
  then have ce2: "ce = 2"
    by (simp add: ad blk)
  from mock_update_estimated nn tr ad blk fl ne ce ce2 pi ti amt show ?thesis
    by blast
qed

section \<open>The private assertion id in the public graph\<close>

text \<open>
  Claim C7. For content with a (truthy) private part, a successful content processing
  has canonicalised the private part and taken its Merkle root first; the public graph
  is the public content (if truthy) plus exactly one statement that maps the reserved
  predicate to that private id, and the public id is the Merkle root of its canonical
  form: the public id depends on both parts.
\<close>

theorem process_content_embeds_private_id:
  assumes "private_part content = Some v" and "truthy v"
    and "process_content L content content_type = Inr a"
  shows "\<exists>private_assertion private_assertion_id.
     normalize_dataset L v content_type = Inr private_assertion \<and>
     merkle_root L private_assertion = Inr private_assertion_id \<and>
     private' a = Some \<lparr>private_id = private_assertion_id,
                        private_content = private_assertion\<rparr> \<and>
     normalize_dataset L
       (JObj [(''@graph'', JList
          ((case public_part content of
              Some p \<Rightarrow> if truthy p then [p] else []
            | None \<Rightarrow> []) @
           [JObj [(PRIVATE_ASSERTION_PREDICATE, JStr private_assertion_id)]]))])
       content_type = Inr (content' (public' a)) \<and>
     merkle_root L (content' (public' a)) = Inr (id' (public' a))"
  using assms unfolding process_content_def and_then_def Let_def
  by (auto split: sum.splits)

theorem process_content_embeds_private_id_witness:
  "private_part mock_private_content = Some (JObj [(''secret'', JStr ''s'')]) \<and>
   truthy (JObj [(''secret'', JStr ''s'')]) \<and>
   process_content mock_lib mock_private_content JSON_LD = Inr mock_private_assertions \<and>
   (\<exists>private_assertion private_assertion_id.
     normalize_dataset mock_lib (JObj [(''secret'', JStr ''s'')]) JSON_LD = Inr private_assertion \<and>
     merkle_root mock_lib private_assertion = Inr private_assertion_id \<and>
     private' mock_private_assertions =
       Some \<lparr>private_id = private_assertion_id, private_content = private_assertion\<rparr> \<and>
     normalize_dataset mock_lib
       (JObj [(''@graph'', JList
          ((case public_part mock_private_content of
              Some p \<Rightarrow> if truthy p then [p] else []
            | None \<Rightarrow> []) @
           [JObj [(PRIVATE_ASSERTION_PREDICATE, JStr private_assertion_id)]]))])
       JSON_LD = Inr (content' (public' mock_private_assertions)) \<and>
     merkle_root mock_lib (content' (public' mock_private_assertions)) =
       Inr (id' (public' mock_private_assertions)))"
proof -
  have p: "private_part mock_private_content = Some (JObj [(''secret'', JStr ''s'')])"
    by (simp add: mock_private_content_def)
  have t: "truthy (JObj [(''secret'', JStr ''s'')])"
    by simp
  from process_content_embeds_private_id[OF p t mock_process_private] p t mock_process_private
  show ?thesis by blast
qed

section \<open>Content without parts\<close>

text \<open>
  \<open>_process_content\<close> has no check of its own on empty content: when neither part is
  truthy (absent, \<open>None\<close>, or empty), it hands the empty graph to the canonicaliser, and
  the outcome is whatever the canonicaliser, the Merkle hasher and the metadata helper
  make of it.
\<close>

lemma process_content_without_parts:
  assumes "\<not> has_part (public_part content)" and "\<not> has_part (private_part content)"
  shows "process_content L content content_type =
     and_then (normalize_dataset L (JObj [(''@graph'', JList [])]) content_type)
       (\<lambda>public_assertion.
     and_then (merkle_root L public_assertion) (\<lambda>public_assertion_id.
     and_then (generate_assertion_metadata L public_assertion) (\<lambda>public_assertion_metadata.
     Inr \<lparr>public' = \<lparr>id' = public_assertion_id,
                       content' = public_assertion,
                       metadata = public_assertion_metadata\<rparr>,
          private' = None\<rparr>)))"
  using assms unfolding process_content_def has_part_def Let_def and_then_def
  by (auto split: option.splits sum.splits)

section \<open>Retrieval\<close>

text \<open>
  The function nested in \<open>get\<close> returns \<open>None\<close> whenever it returns, so the subscript
  \<open>operation_result['data']\<close> of line 248 raises: \<open>get\<close> never returns a result.
\<close>

lemma retry_result:
  assumes "\<And>h x. fst (f h) = Inr x \<Longrightarrow> P x"
  shows "fst (retry c n d b f h) = Inr x \<Longrightarrow> P x"
proof (induction n arbitrary: d h)
  case 0
  then show ?case by (simp add: throw_def)
next
  case (Suc n)
  obtain r es where f: "f (h @ [Sleep d]) = (r, es)" by (cases "f (h @ [Sleep d])")
  show ?case
  proof (cases r)
    case (Inr y)
    with Suc.prems f have "x = y" by (simp add: retry_Suc del: retry.simps)
    with assms[of "h @ [Sleep d]" y] f Inr show ?thesis by simp
  next
    case (Inl e)
    with Suc.prems f have "c e" and "fst (retry c n (d * b) b f (h @ Sleep d # es)) = Inr x"
      by (auto simp: retry_Suc simp del: retry.simps split: if_splits prod.splits)
    with Suc.IH show ?thesis by blast
  qed
qed

lemma nested_returns_None:
  "fst (get_nested_get_operation_result E oid h) = Inr v \<Longrightarrow> v = None"
  unfolding get_nested_get_operation_result_def
  by (erule retry_result[rotated]) (auto simp: io_simps split: sum.splits)

lemma get_never_returns: "fst (get E L ual validate h) \<noteq> Inr r"
  unfolding get_def Let_def
  by (auto simp: fst_bnd fst_call snd_call fst_pure subscript_data_def
      split: sum.splits dest!: nested_returns_None)

text \<open>
  Claim C5. A Get operation the node reports Completed with a result payload should make
  \<open>get\<close> return the statements, the ledger's latest assertion id and the status. In the
  code the run stops after the first Completed answer with a \<open>TypeError\<close>: the ledger is
  not asked for the latest assertion id and nothing is returned.
\<close>

theorem get_completed_raises_TypeError:
  "get mock_env mock_lib ''otp:0xStorage:7'' False [] =
     (Inl TypeError,
      [Get ''otp:0xStorage:7'' 1 (Inr \<lparr>operationId = ''op-get''\<rparr>),
       Sleep 1,
       GetOperationResult ''op-get'' ''get''
         (Inr \<lparr>status = Completed, data = Some \<lparr>data_assertion = [''@id ex:1'']\<rparr>\<rparr>)])"
  by code_simp

text \<open>
  Claim C4. With \<open>validate\<close> set, \<open>get\<close> should succeed when the Merkle root of the
  retrieved statements equals the ledger's latest assertion id and fail with
  \<open>InvalidAsset\<close> when it differs. In the code both runs end in the \<open>TypeError\<close> of
  line 248, before any comparison: once with a ledger id equal to the root, once with a
  different one.
\<close>

theorem get_validate_raises_TypeError:
  "merkle_root mock_lib [''@id ex:1''] =
     Inr (to_hex mock_lib (map of_char ''0x@id ex:1'')) \<and>
   fst (get mock_env mock_lib ''otp:0xStorage:7'' True []) = Inl TypeError \<and>
   merkle_root mock_lib [''@id ex:1''] \<noteq> Inr (to_hex mock_lib (map of_char ''0xother'')) \<and>
   fst (get (mock_env\<lparr>req_get_latest_assertion_id := (\<lambda>h t. Inr (map of_char ''0xother''))\<rparr>)
          mock_lib ''otp:0xStorage:7'' True []) = Inl TypeError"
  by code_simp

end
